theory Spec2Isabelle
  imports Main "HOL-Library.Word" "HOL-Library.Sublist" "HOL-Library.Monad_Syntax"
begin

section \<open>Values shared by the token and the key-entry code\<close>

text \<open>
  A \<open>Buffer\<close> or \<open>Uint8Array\<close> is a list of bytes. A JavaScript string is held as
  the list of its UTF-8 bytes, one \<open>char\<close> each, so \<open>Buffer.from(s, 'utf8')\<close> and
  \<open>buf.toString('utf8')\<close> move between the two views without changing the bytes.
  A \<open>Date\<close> is its time value, the milliseconds since the epoch.
\<close>

type_synonym bytes = "8 word list"
type_synonym date = int

definition utf8_encode :: "string \<Rightarrow> bytes" where
  "utf8_encode s = map of_char s"

definition utf8_decode :: "bytes \<Rightarrow> string" where
  "utf8_decode b = map (\<lambda>w. char_of (unat w)) b"

text \<open>
  Modelled from the spec: \<open>src/Lib/timestamp\<close> is not among the sources.
  \<open>getUnixTimestamp\<close> is the Unix-seconds value of a date and \<open>addSeconds\<close> moves a
  date forward by whole seconds.
\<close>

definition getUnixTimestamp :: "date \<Rightarrow> int" where
  "getUnixTimestamp d = d div 1000"

definition addSeconds :: "date \<Rightarrow> int \<Rightarrow> date" where
  "addSeconds d n = d + n * 1000"

section \<open>Jwt\<close>

definition SubjectPrefix :: string where
  "SubjectPrefix = ''identity-''"

definition IssuerPrefix :: string where
  "IssuerPrefix = ''virgil-''"

record jwt_header =
  alg :: string
  typ' :: string
  cty :: string
  kid :: string

record jwt_body =
  iss :: string
  sub :: string
  iat :: int
  exp :: int
  ada :: "(string \<times> string) list option"

text \<open>
  The collaborators of \<open>Jwt\<close> that are not part of the class: \<open>base64UrlEncode\<close> and
  \<open>base64UrlDecode\<close> of \<open>src/Lib/base64\<close>, and the built-in \<open>JSON.stringify\<close> and
  \<open>JSON.parse\<close>, used at the declared types \<open>IJwtHeader\<close> and \<open>IJwtBody\<close>. A call
  that throws returns \<open>None\<close>.
\<close>

record platform =
  base64UrlEncode :: "bytes \<Rightarrow> string"
  base64UrlDecode :: "string \<Rightarrow> bytes option"
  JSON_stringify_header :: "jwt_header \<Rightarrow> string"
  JSON_parse_header :: "string \<Rightarrow> jwt_header option"
  JSON_stringify_body :: "jwt_body \<Rightarrow> string"
  JSON_parse_body :: "string \<Rightarrow> jwt_body option"

datatype jwt_error = WrongJwtFormat | WrongSubFormat | WrongIssFormat

record jwt =
  header :: jwt_header
  body :: jwt_body
  signature :: "bytes option"
  unsignedData :: bytes
  stringRepresentation :: string

definition headerBase64 :: "platform \<Rightarrow> jwt_header \<Rightarrow> string" where
  "headerBase64 p h = base64UrlEncode p (utf8_encode (JSON_stringify_header p h))"

definition bodyBase64 :: "platform \<Rightarrow> jwt_body \<Rightarrow> string" where
  "bodyBase64 p b = base64UrlEncode p (utf8_encode (JSON_stringify_body p b))"

definition signatureBase64 :: "platform \<Rightarrow> bytes \<Rightarrow> string" where
  "signatureBase64 p s = base64UrlEncode p s"

text \<open>The constructor: \<open>new Jwt(header, body, signature?)\<close>.\<close>

definition new_Jwt :: "platform \<Rightarrow> jwt_header \<Rightarrow> jwt_body \<Rightarrow> bytes option \<Rightarrow> jwt" where
  "new_Jwt p h b sg =
     (let withoutSignature = headerBase64 p h @ ''.'' @ bodyBase64 p b in
      \<lparr> header = h, body = b, signature = sg,
        unsignedData = utf8_encode withoutSignature,
        stringRepresentation =
          (case sg of
             None \<Rightarrow> withoutSignature
           | Some s \<Rightarrow> withoutSignature @ ''.'' @ signatureBase64 p s) \<rparr>)"

definition toString :: "jwt \<Rightarrow> string" where
  "toString j = stringRepresentation j"

text \<open>\<open>String.prototype.split\<close> with a one-character separator.\<close>

fun split_on :: "char \<Rightarrow> string \<Rightarrow> string list" where
  "split_on c [] = [[]]"
| "split_on c (x # xs) =
     (if x = c then [] # split_on c xs
      else (case split_on c xs of
              [] \<Rightarrow> [[x]]
            | part # parts \<Rightarrow> (x # part) # parts))"

definition fromString :: "platform \<Rightarrow> string \<Rightarrow> jwt_error + jwt" where
  "fromString p jwtStr =
     (let parts = split_on (CHR ''.'') jwtStr in
      if length parts \<noteq> 3 then Inl WrongJwtFormat
      else
        (case base64UrlDecode p (parts ! 0) of
           None \<Rightarrow> Inl WrongJwtFormat
         | Some headerBytes \<Rightarrow>
        (case base64UrlDecode p (parts ! 1) of
           None \<Rightarrow> Inl WrongJwtFormat
         | Some bodyBytes \<Rightarrow>
        (case base64UrlDecode p (parts ! 2) of
           None \<Rightarrow> Inl WrongJwtFormat
         | Some sg \<Rightarrow>
        (case JSON_parse_header p (utf8_decode headerBytes) of
           None \<Rightarrow> Inl WrongJwtFormat
         | Some h \<Rightarrow>
        (case JSON_parse_body p (utf8_decode bodyBytes) of
           None \<Rightarrow> Inl WrongJwtFormat
         | Some b \<Rightarrow> Inr (new_Jwt p h b (Some sg))))))))"

text \<open>
  \<open>String.prototype.indexOf\<close>: the position of the first occurrence, or \<open>-1\<close>.
  \<open>String.prototype.substr\<close> with one argument drops that many characters.
\<close>

fun indexOf :: "string \<Rightarrow> string \<Rightarrow> int" where
  "indexOf [] pat = (if pat = [] then 0 else - 1)"
| "indexOf (x # xs) pat =
     (if prefix pat (x # xs) then 0
      else (let r = indexOf xs pat in if r < 0 then - 1 else r + 1))"

definition substr :: "string \<Rightarrow> nat \<Rightarrow> string" where
  "substr s n = drop n s"

definition identity :: "jwt \<Rightarrow> jwt_error + string" where
  "identity j =
     (if indexOf (sub (body j)) SubjectPrefix \<noteq> 0 then Inl WrongSubFormat
      else Inr (substr (sub (body j)) (length SubjectPrefix)))"

definition appId :: "jwt \<Rightarrow> jwt_error + string" where
  "appId j =
     (if indexOf (iss (body j)) IssuerPrefix \<noteq> 0 then Inl WrongIssFormat
      else Inr (substr (iss (body j)) (length IssuerPrefix)))"

definition isExpired :: "jwt \<Rightarrow> date \<Rightarrow> bool" where
  "isExpired j at = (let now = getUnixTimestamp at in exp (body j) < now)"

section \<open>CachingJwtProvider\<close>

definition TOKEN_EXPIRATION_MARGIN :: int where
  "TOKEN_EXPIRATION_MARGIN = 5"

text \<open>
  Modelled from the spec: the type \<open>GetJwtCallback\<close> is not among the sources.
  \<open>renewJwtFn\<close> hands back a \<open>Jwt\<close> or a string, at once or through a promise. A
  promise is rejected with, and a function throws, any value: a string, the error of
  \<open>Jwt.fromString\<close>, or some other value, told apart by a number. The context of a call
  (\<open>ITokenContext\<close>) is passed through to \<open>renewJwtFn\<close> and is a type parameter.
\<close>

datatype token_value = TokenString string | TokenJwt jwt

datatype failure = ThrownString string | ThrownError jwt_error | ThrownOther nat

datatype renewal = Fulfils token_value | Rejects failure

text \<open>
  What a call of \<open>getJwt\<close> gives its caller: the exception of \<open>renewJwtFn\<close> when that
  throws at once, a promise already resolved with the cached token, or the shared
  promise \<open>jwtPromise\<close>, named by a handle.
\<close>

datatype reply = Threw failure | Resolved jwt | Pending nat

text \<open>The two fields of the class.\<close>

record provider =
  cachedJwt :: "jwt option"
  jwtPromise :: "nat option"

text \<open>
  The provider together with a record of what has happened around it: the contexts
  \<open>renewJwtFn\<close> has been called with (latest first), the renewal calls that have not
  delivered their result yet, the results of the shared promises that have settled,
  the replies given to the callers so far (in order), and the next unused handle.
\<close>

record 'c world = provider +
  invocations :: "'c list"
  outstanding :: "nat list"
  results :: "(nat \<times> (failure + jwt)) list"
  replies :: "reply list"
  next_handle :: nat

datatype initial_token = NoToken | InitialString string | InitialJwt jwt

text \<open>
  The constructor. \<open>renewJwtFn\<close> is the environment of the model, so the test that it
  is a function has no counterpart. An empty string is falsy and leaves the cache empty.
\<close>

definition empty_world :: "jwt option \<Rightarrow> 'c world" where
  "empty_world c =
     \<lparr> cachedJwt = c, jwtPromise = None, invocations = [], outstanding = [],
       results = [], replies = [], next_handle = 0 \<rparr>"

definition new_CachingJwtProvider :: "platform \<Rightarrow> initial_token \<Rightarrow> jwt_error + 'c world" where
  "new_CachingJwtProvider p initialToken =
     (case initialToken of
        NoToken \<Rightarrow> Inr (empty_world None)
      | InitialString s \<Rightarrow>
          if s = [] then Inr (empty_world None)
          else (case fromString p s of
                  Inl e \<Rightarrow> Inl e
                | Inr jwt \<Rightarrow> Inr (empty_world (Some jwt)))
      | InitialJwt jwt \<Rightarrow> Inr (empty_world (Some jwt)))"

text \<open>
  \<open>getJwt(context)\<close>, called when the clock reads \<open>now\<close>. \<open>thrown\<close> says what
  \<open>renewJwtFn\<close> does if it is called: \<open>Some e\<close> when it throws \<open>e\<close> at once, so that no
  promise is made, \<open>None\<close> when it returns a value or a promise, whose outcome arrives
  later through \<open>settle\<close>.
\<close>

definition start_renewal :: "'c world \<Rightarrow> 'c \<Rightarrow> failure option \<Rightarrow> reply \<times> 'c world" where
  "start_renewal st context thrown =
     (case thrown of
        Some e \<Rightarrow> (Threw e, st \<lparr> invocations := context # invocations st \<rparr>)
      | None \<Rightarrow>
          (let h = next_handle st in
           (Pending h,
            st \<lparr> jwtPromise := Some h,
                 invocations := context # invocations st,
                 outstanding := h # outstanding st,
                 next_handle := Suc h \<rparr>)))"

definition getJwt :: "'c world \<Rightarrow> 'c \<Rightarrow> date \<Rightarrow> failure option \<Rightarrow> reply \<times> 'c world" where
  "getJwt st context now thrown =
     (let renew = (case jwtPromise st of
                     Some h \<Rightarrow> (Pending h, st)
                   | None \<Rightarrow> start_renewal st context thrown)
      in case cachedJwt st of
           None \<Rightarrow> renew
         | Some jwt \<Rightarrow>
             if \<not> isExpired jwt (addSeconds now TOKEN_EXPIRATION_MARGIN)
             then (Resolved jwt, st)
             else renew)"

text \<open>The handler given to \<open>catch\<close>.\<close>

definition on_rejected :: "platform \<Rightarrow> 'c world \<Rightarrow> failure \<Rightarrow> (failure + jwt) \<times> 'c world" where
  "on_rejected p st err =
     (case err of
        ThrownString s \<Rightarrow>
          (case fromString p s of
             Inr jwt \<Rightarrow> (Inr jwt, st \<lparr> cachedJwt := Some jwt, jwtPromise := None \<rparr>)
           | Inl error \<Rightarrow> (Inl err, st \<lparr> jwtPromise := None \<rparr>))
      | _ \<Rightarrow> (Inl err, st \<lparr> jwtPromise := None \<rparr>))"

text \<open>
  The handler given to \<open>then\<close>. When \<open>Jwt.fromString\<close> throws in it, nothing has been
  assigned yet and the error goes to the \<open>catch\<close> handler that follows.
\<close>

definition on_fulfilled :: "platform \<Rightarrow> 'c world \<Rightarrow> token_value \<Rightarrow> (failure + jwt) \<times> 'c world" where
  "on_fulfilled p st token =
     (case token of
        TokenString s \<Rightarrow>
          (case fromString p s of
             Inl e \<Rightarrow> on_rejected p st (ThrownError e)
           | Inr jwt \<Rightarrow> (Inr jwt, st \<lparr> cachedJwt := Some jwt, jwtPromise := None \<rparr>))
      | TokenJwt jwt \<Rightarrow> (Inr jwt, st \<lparr> cachedJwt := Some jwt, jwtPromise := None \<rparr>))"

text \<open>
  The renewal call behind the shared promise \<open>h\<close> delivers its outcome: the handlers
  run and the shared promise settles with their result. A call delivers once, so a
  handle that is not outstanding has nothing to deliver.
\<close>

definition settle :: "platform \<Rightarrow> 'c world \<Rightarrow> nat \<Rightarrow> renewal \<Rightarrow> 'c world" where
  "settle p st h outcome =
     (if h \<in> set (outstanding st)
      then (let (r, st') = (case outcome of
                              Fulfils token \<Rightarrow> on_fulfilled p st token
                            | Rejects err \<Rightarrow> on_rejected p st err)
            in st' \<lparr> outstanding := remove1 h (outstanding st'),
                     results := (h, r) # results st' \<rparr>)
      else st)"

text \<open>The provider in use: calls of \<open>getJwt\<close> and deliveries of renewals, in any order.\<close>

datatype 'c event = GetToken 'c date "failure option" | Settle nat renewal

definition step :: "platform \<Rightarrow> 'c world \<Rightarrow> 'c event \<Rightarrow> 'c world" where
  "step p st ev =
     (case ev of
        GetToken context now thrown \<Rightarrow>
          (let (r, st') = getJwt st context now thrown
           in st' \<lparr> replies := replies st' @ [r] \<rparr>)
      | Settle h outcome \<Rightarrow> settle p st h outcome)"

definition run :: "platform \<Rightarrow> 'c world \<Rightarrow> 'c event list \<Rightarrow> 'c world" where
  "run p st evs = foldl (step p) st evs"

text \<open>What the caller holding a reply has got by now.\<close>

definition resolution :: "'c world \<Rightarrow> reply \<Rightarrow> (failure + jwt) option" where
  "resolution st r =
     (case r of
        Threw e \<Rightarrow> Some (Inl e)
      | Resolved jwt \<Rightarrow> Some (Inr jwt)
      | Pending h \<Rightarrow> map_of (results st) h)"

text \<open>
  The cache does not serve a call at \<open>now\<close>: it is empty, or the cached token is
  expired five seconds from \<open>now\<close>.
\<close>

definition stale :: "'c world \<Rightarrow> date \<Rightarrow> bool" where
  "stale st now =
     (case cachedJwt st of
        None \<Rightarrow> True
      | Some jwt \<Rightarrow> isExpired jwt (addSeconds now TOKEN_EXPIRATION_MARGIN))"

text \<open>The in-flight marker is set exactly while one renewal call is outstanding.\<close>

definition single_flight :: "'c world \<Rightarrow> bool" where
  "single_flight st =
     (case jwtPromise st of
        None \<Rightarrow> outstanding st = []
      | Some h \<Rightarrow> outstanding st = [h])"

text \<open>The clock readings of the calls of \<open>getJwt\<close> among the events, in order.\<close>

fun call_times :: "'c event list \<Rightarrow> date list" where
  "call_times [] = []"
| "call_times (GetToken c now thrown # evs) = now # call_times evs"
| "call_times (Settle h outcome # evs) = call_times evs"

section \<open>KeyEntryStorage\<close>

definition VALUE_KEY :: string where
  "VALUE_KEY = ''value''"

definition CREATION_DATE_KEY :: string where
  "CREATION_DATE_KEY = ''creationDate''"

definition MODIFICATION_DATE_KEY :: string where
  "MODIFICATION_DATE_KEY = ''modificationDate''"

text \<open>
  Key entries are plain JavaScript objects: the code builds them with an object
  literal, takes them apart with a rest pattern, merges them with \<open>Object.assign\<close> and
  gets them from \<open>JSON.parse\<close>. A value is a primitive, a \<open>Buffer\<close>, a \<open>Date\<close> (valid or
  not), an array, or an object, which is the list of its properties in insertion order.
\<close>

datatype jsval =
    JUndefined
  | JNull
  | JBool bool
  | JNumber int
  | JString string
  | JBuffer bytes
  | JDate date
  | JInvalidDate
  | JArray "jsval list"
  | JObject "(string \<times> jsval) list"

text \<open>Reading a property: \<open>undefined\<close> when the object has none of that name.\<close>

definition lookup :: "(string \<times> jsval) list \<Rightarrow> string \<Rightarrow> jsval" where
  "lookup kvs k = (case map_of kvs k of None \<Rightarrow> JUndefined | Some v \<Rightarrow> v)"

text \<open>Writing a property keeps its place if it exists and appends it otherwise.\<close>

fun set_prop :: "(string \<times> jsval) list \<Rightarrow> string \<Rightarrow> jsval \<Rightarrow> (string \<times> jsval) list" where
  "set_prop [] k v = [(k, v)]"
| "set_prop ((k', v') # kvs) k v =
     (if k' = k then (k, v) # kvs else (k', v') # set_prop kvs k v)"

text \<open>\<open>Object.assign(target, source)\<close> writes the properties of the source in turn.\<close>

fun Object_assign :: "(string \<times> jsval) list \<Rightarrow> (string \<times> jsval) list \<Rightarrow> (string \<times> jsval) list" where
  "Object_assign target [] = target"
| "Object_assign target ((k, v) # source) = Object_assign (set_prop target k v) source"

text \<open>
  Modelled from the spec: the types \<open>Data\<close> of \<open>src/types\<close> and \<open>KeyEntryMeta\<close> of
  \<open>./IKeyEntryStorage\<close> are not among the sources. A value is an opaque byte
  sequence: a \<open>Uint8Array\<close>, or a string, which the code reads as base64. The optional
  \<open>meta\<close> is a map from strings to strings.
\<close>

datatype data = DataString string | DataBytes bytes

type_synonym key_entry_meta = "(string \<times> string) list"

definition meta_value :: "key_entry_meta option \<Rightarrow> jsval" where
  "meta_value meta =
     (case meta of
        None \<Rightarrow> JUndefined
      | Some kvs \<Rightarrow> JObject (map (\<lambda>(k, v). (k, JString v)) kvs))"

text \<open>
  Truthiness of an optional \<open>Data\<close>: \<open>undefined\<close> and the empty string are falsy, a
  \<open>Uint8Array\<close> is an object and truthy whatever its length.
\<close>

definition truthy_data :: "data option \<Rightarrow> bool" where
  "truthy_data value =
     (case value of
        None \<Rightarrow> False
      | Some (DataString s) \<Rightarrow> s \<noteq> []
      | Some (DataBytes b) \<Rightarrow> True)"

text \<open>
  What the code uses of the platform: \<open>JSON.stringify\<close> (on values of the program, so
  with \<open>toJSON\<close> of dates and buffers applied and \<open>undefined\<close> properties left out),
  \<open>JSON.parse\<close> without a reviver, \<open>buffer.toString('base64')\<close>,
  \<open>NodeBuffer.from(value, 'base64')\<close> and \<open>new Date(value)\<close> on any value. A call
  that throws returns \<open>None\<close>; \<open>new Date\<close> never throws and returns \<open>None\<close> for an
  invalid date.
\<close>

record storage_platform =
  JSON_stringify :: "jsval \<Rightarrow> string"
  JSON_parse :: "string \<Rightarrow> jsval option"
  base64_encode :: "bytes \<Rightarrow> string"
  Buffer_from_base64 :: "jsval \<Rightarrow> bytes option"
  Date_new :: "jsval \<Rightarrow> date option"

text \<open>
  Modelled from the spec: the interface \<open>IStorageAdapter\<close> is not among the sources.
  The adapter is chosen by the caller and is a parameter here: \<open>load\<close> returns the
  bytes or null, \<open>store\<close> and \<open>update\<close> write them. Its state is passed along, and an
  operation fails with an error that has a \<open>name\<close>.
\<close>

datatype storage_error = StorageError (error_name: string)

record 'st adapter =
  adapter_load :: "'st \<Rightarrow> string \<Rightarrow> storage_error + bytes option"
  adapter_store :: "'st \<Rightarrow> string \<Rightarrow> bytes \<Rightarrow> storage_error + 'st"
  adapter_update :: "'st \<Rightarrow> string \<Rightarrow> bytes \<Rightarrow> storage_error + 'st"

text \<open>
  The errors: the \<open>TypeError\<close> of the validators with its message, the three error
  classes imported from \<open>./errors\<close>, an error of the adapter passed on unchanged, an
  exception thrown inside a library call (\<open>dataToUint8Array\<close>, \<open>toBuffer\<close>), and
  \<open>NotAnObject\<close> for a stored record that deserializes to a value that is no object,
  where this model of \<open>update\<close> stops.
\<close>

datatype key_storage_error =
    TypeError string
  | KeyEntryAlreadyExistsError string
  | KeyEntryDoesNotExistError string
  | InvalidKeyEntryError
  | AdapterError storage_error
  | LibraryError
  | NotAnObject

text \<open>
  \<open>dataToUint8Array(value, 'base64')\<close> of the package \<open>data-utils\<close>: a \<open>Uint8Array\<close> is
  returned as it is and a string is decoded as base64.
\<close>

definition dataToUint8Array :: "storage_platform \<Rightarrow> data \<Rightarrow> bytes option" where
  "dataToUint8Array P value =
     (case value of
        DataBytes b \<Rightarrow> Some b
      | DataString s \<Rightarrow> Buffer_from_base64 P (JString s))"

text \<open>
  \<open>serializeKeyEntry\<close>. \<open>toBuffer\<close> throws unless \<open>keyEntry.value\<close> holds bytes, which
  it does not when the key entry is no object: the rest pattern throws on \<open>undefined\<close>
  and \<open>null\<close>, and any other value has no property \<open>value\<close> that holds bytes.
\<close>

definition serializeKeyEntry :: "storage_platform \<Rightarrow> jsval \<Rightarrow> bytes option" where
  "serializeKeyEntry P keyEntry =
     (case keyEntry of
        JObject kvs \<Rightarrow>
          (case lookup kvs VALUE_KEY of
             JBuffer b \<Rightarrow>
               (let rest = filter (\<lambda>(k, v). k \<noteq> VALUE_KEY) kvs;
                    serializableEntry = JObject (rest @ [(VALUE_KEY, JString (base64_encode P b))])
                in Some (utf8_encode (JSON_stringify P serializableEntry)))
           | _ \<Rightarrow> None)
      | _ \<Rightarrow> None)"

text \<open>The reviver function handed to \<open>JSON.parse\<close>.\<close>

definition reviver :: "storage_platform \<Rightarrow> string \<Rightarrow> jsval \<Rightarrow> jsval option" where
  "reviver P key value =
     (if key = VALUE_KEY then map_option JBuffer (Buffer_from_base64 P value)
      else if key = CREATION_DATE_KEY \<or> key = MODIFICATION_DATE_KEY
      then Some (case Date_new P value of None \<Rightarrow> JInvalidDate | Some d \<Rightarrow> JDate d)
      else Some value)"

text \<open>
  How \<open>JSON.parse\<close> applies a reviver: the properties of an object and the elements of
  an array are revived first, in order, each under its own key (an array index in
  decimal); a property revived to \<open>undefined\<close> is deleted; then the value itself is
  revived under the key it is held by. The result is \<open>None\<close> when the reviver throws.
\<close>

function decimal :: "int \<Rightarrow> string" where
  "decimal n = (if n < 10 then [char_of (48 + n)] else decimal (n div 10) @ [char_of (48 + n mod 10)])"
  by pat_completeness auto
termination
  by (relation "measure nat") auto

fun internalize :: "(string \<Rightarrow> jsval \<Rightarrow> jsval option) \<Rightarrow> string \<Rightarrow> jsval \<Rightarrow> jsval option"
  and internalize_properties ::
    "(string \<Rightarrow> jsval \<Rightarrow> jsval option) \<Rightarrow> (string \<times> jsval) list \<Rightarrow> (string \<times> jsval) list option"
  and internalize_elements ::
    "(string \<Rightarrow> jsval \<Rightarrow> jsval option) \<Rightarrow> int \<Rightarrow> jsval list \<Rightarrow> jsval list option"
where
  "internalize rv key (JObject kvs) =
     (case internalize_properties rv kvs of
        None \<Rightarrow> None
      | Some kvs' \<Rightarrow> rv key (JObject kvs'))"
| "internalize rv key (JArray xs) =
     (case internalize_elements rv 0 xs of
        None \<Rightarrow> None
      | Some xs' \<Rightarrow> rv key (JArray xs'))"
| "internalize rv key JUndefined = rv key JUndefined"
| "internalize rv key JNull = rv key JNull"
| "internalize rv key (JBool b) = rv key (JBool b)"
| "internalize rv key (JNumber n) = rv key (JNumber n)"
| "internalize rv key (JString s) = rv key (JString s)"
| "internalize rv key (JBuffer b) = rv key (JBuffer b)"
| "internalize rv key (JDate d) = rv key (JDate d)"
| "internalize rv key JInvalidDate = rv key JInvalidDate"
| "internalize_properties rv [] = Some []"
| "internalize_properties rv ((k, v) # kvs) =
     (case internalize rv k v of
        None \<Rightarrow> None
      | Some v' \<Rightarrow>
          (case internalize_properties rv kvs of
             None \<Rightarrow> None
           | Some kvs' \<Rightarrow> Some (if v' = JUndefined then kvs' else (k, v') # kvs')))"
| "internalize_elements rv i [] = Some []"
| "internalize_elements rv i (x # xs) =
     (case internalize rv (decimal i) x of
        None \<Rightarrow> None
      | Some x' \<Rightarrow>
          (case internalize_elements rv (i + 1) xs of
             None \<Rightarrow> None
           | Some xs' \<Rightarrow> Some (x' # xs')))"

definition deserializeKeyEntry :: "storage_platform \<Rightarrow> bytes \<Rightarrow> key_storage_error + jsval" where
  "deserializeKeyEntry P d =
     (let dataStr = utf8_decode d in
      case JSON_parse P dataStr of
        None \<Rightarrow> Inl InvalidKeyEntryError
      | Some parsed \<Rightarrow>
          (case internalize (reviver P) [] parsed of
             None \<Rightarrow> Inl InvalidKeyEntryError
           | Some keyEntry \<Rightarrow> Inr keyEntry))"

text \<open>\<open>requiredArg('name')\<close> and \<open>requiredProp(name)\<close>, applied to a string.\<close>

definition validateName :: "string \<Rightarrow> key_storage_error option" where
  "validateName name =
     (if name = [] then Some (TypeError ''Argument 'name' is required.'') else None)"

definition validateNameProperty :: "string \<Rightarrow> key_storage_error option" where
  "validateNameProperty name =
     (if name = [] then Some (TypeError ''Invalid argument. Property name is required'')
      else None)"

definition validateValueProperty :: "data \<Rightarrow> key_storage_error option" where
  "validateValueProperty value =
     (if \<not> truthy_data (Some value)
      then Some (TypeError ''Invalid argument. Property value is required'')
      else None)"

text \<open>\<open>load(name)\<close>.\<close>

definition load ::
  "storage_platform \<Rightarrow> 'st adapter \<Rightarrow> 'st \<Rightarrow> string \<Rightarrow> key_storage_error + jsval option" where
  "load P ad st name =
     (case validateName name of
        Some e \<Rightarrow> Inl e
      | None \<Rightarrow>
          (case adapter_load ad st name of
             Inl error \<Rightarrow> Inl (AdapterError error)
           | Inr None \<Rightarrow> Inr None
           | Inr (Some d) \<Rightarrow>
               (case deserializeKeyEntry P d of
                  Inl e \<Rightarrow> Inl e
                | Inr keyEntry \<Rightarrow> Inr (Some keyEntry))))"

text \<open>
  \<open>save({ name, value, meta })\<close>. The entry is built with two readings of the clock,
  one for each \<open>new Date()\<close>, the first for \<open>creationDate\<close>.
\<close>

definition save ::
  "storage_platform \<Rightarrow> 'st adapter \<Rightarrow> 'st \<Rightarrow> string \<Rightarrow> data \<Rightarrow> key_entry_meta option \<Rightarrow>
   date \<Rightarrow> date \<Rightarrow> key_storage_error + (jsval \<times> 'st)" where
  "save P ad st name value meta now1 now2 =
     (case validateNameProperty name of
        Some e \<Rightarrow> Inl e
      | None \<Rightarrow>
     (case validateValueProperty value of
        Some e \<Rightarrow> Inl e
      | None \<Rightarrow>
     (case dataToUint8Array P value of
        None \<Rightarrow> Inl LibraryError
      | Some myValue \<Rightarrow>
          (let keyEntry = JObject
                 [(''name'', JString name),
                  (''value'', JBuffer myValue),
                  (''meta'', meta_value meta),
                  (''creationDate'', JDate now1),
                  (''modificationDate'', JDate now2)]
           in case serializeKeyEntry P keyEntry of
                None \<Rightarrow> Inl LibraryError
              | Some serialized \<Rightarrow>
                  (case adapter_store ad st name serialized of
                     Inr st' \<Rightarrow> Inr (keyEntry, st')
                   | Inl error \<Rightarrow>
                       if error_name error = ''StorageEntryAlreadyExistsError''
                       then Inl (KeyEntryAlreadyExistsError name)
                       else Inl (AdapterError error))))))"

text \<open>\<open>update({ name, value, meta })\<close>, with the clock reading \<open>now\<close>.\<close>

definition update ::
  "storage_platform \<Rightarrow> 'st adapter \<Rightarrow> 'st \<Rightarrow> string \<Rightarrow> data option \<Rightarrow> key_entry_meta option \<Rightarrow>
   date \<Rightarrow> key_storage_error + (jsval \<times> 'st)" where
  "update P ad st name value meta now =
     (case validateNameProperty name of
        Some e \<Rightarrow> Inl e
      | None \<Rightarrow>
          if \<not> (truthy_data value \<or> meta \<noteq> None)
          then Inl (TypeError ''Invalid argument. Either `value` or `meta` property is required.'')
          else
            (case adapter_load ad st name of
               Inl error \<Rightarrow> Inl (AdapterError error)
             | Inr None \<Rightarrow> Inl (KeyEntryDoesNotExistError name)
             | Inr (Some d) \<Rightarrow>
            (case deserializeKeyEntry P d of
               Inl e \<Rightarrow> Inl e
             | Inr (JObject entry) \<Rightarrow>
                 (case (if truthy_data value
                        then map_option JBuffer (Option.bind value (dataToUint8Array P))
                        else Some (lookup entry ''value'')) of
                    None \<Rightarrow> Inl LibraryError
                  | Some newValue \<Rightarrow>
                      (let updatedEntry = JObject (Object_assign entry
                             [(''value'', newValue),
                              (''meta'', if meta \<noteq> None then meta_value meta
                                          else lookup entry ''meta''),
                              (''modificationDate'', JDate now)])
                       in case serializeKeyEntry P updatedEntry of
                            None \<Rightarrow> Inl LibraryError
                          | Some serialized \<Rightarrow>
                              (case adapter_update ad st name serialized of
                                 Inl error \<Rightarrow> Inl (AdapterError error)
                               | Inr st' \<Rightarrow> Inr (updatedEntry, st'))))
             | Inr _ \<Rightarrow> Inl NotAnObject)))"

text \<open>
  The object \<open>serializableEntry\<close> that \<open>save\<close> hands to \<open>JSON.stringify\<close> for a value
  given as bytes: the rest of the key entry, then \<open>value\<close> as base64 text.
\<close>

definition saved_entry ::
  "storage_platform \<Rightarrow> string \<Rightarrow> bytes \<Rightarrow> key_entry_meta option \<Rightarrow> date \<Rightarrow> date \<Rightarrow> jsval" where
  "saved_entry P name b meta now1 now2 =
     JObject
       [(''name'', JString name),
        (''meta'', meta_value meta),
        (''creationDate'', JDate now1),
        (''modificationDate'', JDate now2),
        (''value'', JString (base64_encode P b))]"

section \<open>A reference platform\<close>

text \<open>
  Modelled from the spec: \<open>src/Lib/base64\<close> is not among the sources. Base64url is
  base64 over the alphabet with \<open>-\<close> for \<open>+\<close> and \<open>_\<close> for \<open>/\<close>, written without the
  trailing \<open>=\<close> padding, which decoding does not need. The JSON codec of the
  reference platform reads and writes the canonical text of the two record types only
  (keys in declaration order, no white space, no escape sequences). The general results
  below hold for every platform; the reference platform evaluates them on concrete
  tokens.
\<close>

definition base64url_alphabet :: string where
  "base64url_alphabet = ''ABCDEFGHIJKLMNOPQRSTUVWXYZabcdefghijklmnopqrstuvwxyz0123456789-_''"

fun sextets :: "nat list \<Rightarrow> nat list" where
  "sextets (a # b # c # r) =
     [a div 4, (a mod 4) * 16 + b div 16, (b mod 16) * 4 + c div 64, c mod 64] @ sextets r"
| "sextets [a, b] = [a div 4, (a mod 4) * 16 + b div 16, (b mod 16) * 4]"
| "sextets [a] = [a div 4, (a mod 4) * 16]"
| "sextets [] = []"

fun octets :: "nat list \<Rightarrow> nat list option" where
  "octets (w # x # y # z # r) =
     map_option (\<lambda>bs. [w * 4 + x div 16, (x mod 16) * 16 + y div 4, (y mod 4) * 64 + z] @ bs)
       (octets r)"
| "octets [w, x, y] = Some [w * 4 + x div 16, (x mod 16) * 16 + y div 4]"
| "octets [w, x] = Some [w * 4 + x div 16]"
| "octets [w] = None"
| "octets [] = Some []"

definition base64url_encode :: "bytes \<Rightarrow> string" where
  "base64url_encode bs = map (\<lambda>n. base64url_alphabet ! n) (sextets (map unat bs))"

definition sextet_of :: "string \<Rightarrow> char \<Rightarrow> nat" where
  "sextet_of alphabet c = length (takeWhile (\<lambda>x. x \<noteq> c) alphabet)"

definition base64url_decode :: "string \<Rightarrow> bytes option" where
  "base64url_decode s =
     (if \<forall>c \<in> set s. c \<in> set base64url_alphabet
      then map_option (map of_nat) (octets (map (sextet_of base64url_alphabet) s))
      else None)"

definition show_int :: "int \<Rightarrow> string" where
  "show_int i = (if i < 0 then ''-'' @ decimal (- i) else decimal i)"

definition is_digit :: "char \<Rightarrow> bool" where
  "is_digit c = (c \<in> set ''0123456789'')"

definition read_nat :: "string \<Rightarrow> (int \<times> string) option" where
  "read_nat s =
     (let ds = takeWhile is_digit s in
      if ds = [] then None
      else Some (foldl (\<lambda>a c. a * 10 + (of_char c - 48)) 0 ds, dropWhile is_digit s))"

definition read_int :: "string \<Rightarrow> (int \<times> string) option" where
  "read_int s =
     (case s of
        [] \<Rightarrow> None
      | c # r \<Rightarrow>
          if c = CHR ''-'' then map_option (\<lambda>(n, r'). (- n, r')) (read_nat r)
          else read_nat s)"

definition expect :: "string \<Rightarrow> string \<Rightarrow> string option" where
  "expect lit s = (if prefix lit s then Some (drop (length lit) s) else None)"

definition read_text :: "string \<Rightarrow> (string \<times> string) option" where
  "read_text s =
     (if CHR 0x22 \<in> set s
      then Some (takeWhile (\<lambda>c. c \<noteq> CHR 0x22) s, tl (dropWhile (\<lambda>c. c \<noteq> CHR 0x22) s))
      else None)"

definition header_text :: "jwt_header \<Rightarrow> string" where
  \<open>header_text h =
     ''{"alg":"'' @ alg h @ ''","typ":"'' @ typ' h @ ''","cty":"'' @ cty h @
     ''","kid":"'' @ kid h @ ''"}''\<close>

definition parse_header_text :: "string \<Rightarrow> jwt_header option" where
  \<open>parse_header_text s = do {
     r \<leftarrow> expect ''{"alg":"'' s;
     (a, r) \<leftarrow> read_text r;
     r \<leftarrow> expect '',"typ":"'' r;
     (t, r) \<leftarrow> read_text r;
     r \<leftarrow> expect '',"cty":"'' r;
     (c, r) \<leftarrow> read_text r;
     r \<leftarrow> expect '',"kid":"'' r;
     (k, r) \<leftarrow> read_text r;
     if r = ''}'' then Some \<lparr> alg = a, typ' = t, cty = c, kid = k \<rparr> else None
   }\<close>

fun pairs_text :: "(string \<times> string) list \<Rightarrow> string" where
  \<open>pairs_text [] = ''''\<close>
| \<open>pairs_text [(k, v)] = ''"'' @ k @ ''":"'' @ v @ ''"''\<close>
| \<open>pairs_text ((k, v) # kvs) = ''"'' @ k @ ''":"'' @ v @ ''",'' @ pairs_text kvs\<close>

fun read_pairs :: "nat \<Rightarrow> string \<Rightarrow> ((string \<times> string) list \<times> string) option" where
  \<open>read_pairs 0 s = None\<close>
| \<open>read_pairs (Suc n) s = do {
     r \<leftarrow> expect ''"'' s;
     (k, r) \<leftarrow> read_text r;
     r \<leftarrow> expect '':"'' r;
     (v, r) \<leftarrow> read_text r;
     (case r of
        [] \<Rightarrow> None
      | c # r' \<Rightarrow>
          if c = CHR '','' then map_option (\<lambda>(kvs, r''). ((k, v) # kvs, r'')) (read_pairs n r')
          else if c = CHR ''}'' then Some ([(k, v)], r')
          else None)
   }\<close>

definition body_text :: "jwt_body \<Rightarrow> string" where
  \<open>body_text b =
     ''{"iss":"'' @ iss b @ ''","sub":"'' @ sub b @ ''","iat":'' @ show_int (iat b) @
     '',"exp":'' @ show_int (exp b) @
     (case ada b of None \<Rightarrow> '''' | Some kvs \<Rightarrow> '',"ada":{'' @ pairs_text kvs @ ''}'') @ ''}''\<close>

definition parse_body_text :: "string \<Rightarrow> jwt_body option" where
  \<open>parse_body_text s = do {
     r \<leftarrow> expect ''{"iss":"'' s;
     (i, r) \<leftarrow> read_text r;
     r \<leftarrow> expect '',"sub":"'' r;
     (u, r) \<leftarrow> read_text r;
     r \<leftarrow> expect '',"iat":'' r;
     (t, r) \<leftarrow> read_int r;
     r \<leftarrow> expect '',"exp":'' r;
     (e, r) \<leftarrow> read_int r;
     if r = ''}'' then Some \<lparr> iss = i, sub = u, iat = t, exp = e, ada = None \<rparr>
     else do {
       r \<leftarrow> expect '',"ada":{'' r;
       (kvs, r) \<leftarrow> (if prefix ''}'' r then Some ([], tl r) else read_pairs (length r) r);
       if r = ''}'' then Some \<lparr> iss = i, sub = u, iat = t, exp = e, ada = Some kvs \<rparr> else None
     }
   }\<close>

definition reference_platform :: platform where
  "reference_platform =
     \<lparr> base64UrlEncode = base64url_encode, base64UrlDecode = base64url_decode,
       JSON_stringify_header = header_text, JSON_parse_header = parse_header_text,
       JSON_stringify_body = body_text, JSON_parse_body = parse_body_text \<rparr>"

text \<open>
  The reference platform of the key-entry code: JSON text over \<open>jsval\<close> as
  \<open>JSON.stringify\<close> writes it (no white space, strings without escape sequences, a
  date as its ISO string, a buffer as its \<open>toJSON\<close> object, \<open>undefined\<close> properties left
  out), a parser for that text, base64 with padding, and ISO dates by the proleptic
  Gregorian calendar.
\<close>

definition base64_alphabet :: string where
  "base64_alphabet = ''ABCDEFGHIJKLMNOPQRSTUVWXYZabcdefghijklmnopqrstuvwxyz0123456789+/''"

definition base64_text :: "bytes \<Rightarrow> string" where
  "base64_text bs =
     map (\<lambda>n. base64_alphabet ! n) (sextets (map unat bs))
     @ replicate ((3 - length bs mod 3) mod 3) (CHR ''='')"

definition base64_bytes :: "string \<Rightarrow> bytes" where
  "base64_bytes s =
     (let xs = map (sextet_of base64_alphabet) (filter (\<lambda>c. c \<in> set base64_alphabet) s) in
      case octets xs of
        Some b \<Rightarrow> map of_nat b
      | None \<Rightarrow> (case octets (butlast xs) of Some b \<Rightarrow> map of_nat b | None \<Rightarrow> []))"

definition pad :: "nat \<Rightarrow> int \<Rightarrow> string" where
  "pad w n = replicate (w - length (decimal n)) (CHR ''0'') @ decimal n"

definition civil_from_days :: "int \<Rightarrow> int \<times> int \<times> int" where
  "civil_from_days days =
     (let z = days + 719468;
          era = z div 146097;
          doe = z - era * 146097;
          yoe = (doe - doe div 1460 + doe div 36524 - doe div 146096) div 365;
          doy = doe - (365 * yoe + yoe div 4 - yoe div 100);
          mp = (5 * doy + 2) div 153;
          d = doy - (153 * mp + 2) div 5 + 1;
          m = (if mp < 10 then mp + 3 else mp - 9)
      in (yoe + era * 400 + (if m \<le> 2 then 1 else 0), m, d))"

definition days_from_civil :: "int \<Rightarrow> int \<Rightarrow> int \<Rightarrow> int" where
  "days_from_civil y m d =
     (let y' = (if m \<le> 2 then y - 1 else y);
          era = y' div 400;
          yoe = y' - era * 400;
          doy = (153 * (if m > 2 then m - 3 else m + 9) + 2) div 5 + d - 1;
          doe = yoe * 365 + yoe div 4 - yoe div 100 + doy
      in era * 146097 + doe - 719468)"

definition toISOString :: "date \<Rightarrow> string" where
  "toISOString t =
     (let (y, m, d) = civil_from_days (t div 86400000);
          r = t mod 86400000
      in pad 4 y @ ''-'' @ pad 2 m @ ''-'' @ pad 2 d @ ''T'' @
         pad 2 (r div 3600000) @ '':'' @ pad 2 (r div 60000 mod 60) @ '':'' @
         pad 2 (r div 1000 mod 60) @ ''.'' @ pad 3 (r mod 1000) @ ''Z'')"

definition digits_value :: "string \<Rightarrow> int" where
  "digits_value ds = foldl (\<lambda>a c. a * 10 + (of_char c - 48)) 0 ds"

definition parse_iso :: "string \<Rightarrow> date option" where
  "parse_iso s =
     (if length s = 24
         \<and> map (\<lambda>i. s ! i) [4, 7, 10, 13, 16, 19, 23] = ''--T::.Z''
         \<and> (\<forall>i \<in> set [0, 1, 2, 3, 5, 6, 8, 9, 11, 12, 14, 15, 17, 18, 20, 21, 22].
               is_digit (s ! i))
      then Some
        (days_from_civil (digits_value (take 4 s)) (digits_value (take 2 (drop 5 s)))
           (digits_value (take 2 (drop 8 s))) * 86400000
         + digits_value (take 2 (drop 11 s)) * 3600000
         + digits_value (take 2 (drop 14 s)) * 60000
         + digits_value (take 2 (drop 17 s)) * 1000
         + digits_value (take 3 (drop 20 s)))
      else None)"

fun json_text :: "jsval \<Rightarrow> string"
  and json_members :: "(string \<times> jsval) list \<Rightarrow> string list"
  and json_elements :: "jsval list \<Rightarrow> string list"
where
  \<open>json_text JUndefined = ''null''\<close>
| \<open>json_text JNull = ''null''\<close>
| \<open>json_text (JBool b) = (if b then ''true'' else ''false'')\<close>
| \<open>json_text (JNumber n) = show_int n\<close>
| \<open>json_text (JString s) = ''"'' @ s @ ''"''\<close>
| \<open>json_text (JBuffer b) =
     ''{"type":"Buffer","data":['' @
     concat (map (\<lambda>(i, w). (if i = 0 then [] else '','') @ decimal (uint w))
                 (zip [0 ..< length b] b)) @ '']}''\<close>
| \<open>json_text (JDate d) = ''"'' @ toISOString d @ ''"''\<close>
| \<open>json_text JInvalidDate = ''null''\<close>
| \<open>json_text (JArray xs) =
     ''['' @ (case json_elements xs of [] \<Rightarrow> [] | e # es \<Rightarrow> e @ concat (map ((@) '','') es))
     @ '']''\<close>
| \<open>json_text (JObject kvs) =
     ''{'' @ (case json_members kvs of [] \<Rightarrow> [] | e # es \<Rightarrow> e @ concat (map ((@) '','') es))
     @ ''}''\<close>
| \<open>json_members [] = []\<close>
| \<open>json_members ((k, v) # kvs) =
     (if v = JUndefined then json_members kvs
      else (''"'' @ k @ ''":'' @ json_text v) # json_members kvs)\<close>
| \<open>json_elements [] = []\<close>
| \<open>json_elements (x # xs) = json_text x # json_elements xs\<close>

fun parse_value :: "nat \<Rightarrow> string \<Rightarrow> (jsval \<times> string) option"
  and parse_members :: "nat \<Rightarrow> string \<Rightarrow> ((string \<times> jsval) list \<times> string) option"
  and parse_elements :: "nat \<Rightarrow> string \<Rightarrow> (jsval list \<times> string) option"
where
  \<open>parse_value 0 s = None\<close>
| \<open>parse_value (Suc n) s =
     (case s of
        [] \<Rightarrow> None
      | c # r \<Rightarrow>
          if c = CHR 0x22 then map_option (\<lambda>(t, r'). (JString t, r')) (read_text r)
          else if c = CHR ''{'' then
            (if prefix ''}'' r then Some (JObject [], tl r)
             else map_option (\<lambda>(kvs, r'). (JObject kvs, r')) (parse_members n r))
          else if c = CHR ''['' then
            (if prefix '']'' r then Some (JArray [], tl r)
             else map_option (\<lambda>(xs, r'). (JArray xs, r')) (parse_elements n r))
          else if prefix ''null'' s then Some (JNull, drop 4 s)
          else if prefix ''true'' s then Some (JBool True, drop 4 s)
          else if prefix ''false'' s then Some (JBool False, drop 5 s)
          else map_option (\<lambda>(i, r'). (JNumber i, r')) (read_int s))\<close>
| \<open>parse_members 0 s = None\<close>
| \<open>parse_members (Suc n) s =
     (case expect ''"'' s of
        None \<Rightarrow> None
      | Some r1 \<Rightarrow>
     (case read_text r1 of
        None \<Rightarrow> None
      | Some (k, r2) \<Rightarrow>
     (case expect '':'' r2 of
        None \<Rightarrow> None
      | Some r3 \<Rightarrow>
     (case parse_value n r3 of
        None \<Rightarrow> None
      | Some (v, r4) \<Rightarrow>
     (case r4 of
        [] \<Rightarrow> None
      | c # r5 \<Rightarrow>
          if c = CHR '','' then map_option (\<lambda>(kvs, r6). ((k, v) # kvs, r6)) (parse_members n r5)
          else if c = CHR ''}'' then Some ([(k, v)], r5)
          else None)))))\<close>
| \<open>parse_elements 0 s = None\<close>
| \<open>parse_elements (Suc n) s =
     (case parse_value n s of
        None \<Rightarrow> None
      | Some (v, r1) \<Rightarrow>
     (case r1 of
        [] \<Rightarrow> None
      | c # r2 \<Rightarrow>
          if c = CHR '','' then map_option (\<lambda>(xs, r3). (v # xs, r3)) (parse_elements n r2)
          else if c = CHR '']'' then Some ([v], r2)
          else None))\<close>

definition parse_json :: "string \<Rightarrow> jsval option" where
  "parse_json s =
     (case parse_value (Suc (length s)) s of
        Some (v, []) \<Rightarrow> Some v
      | _ \<Rightarrow> None)"

definition buffer_from :: "jsval \<Rightarrow> bytes option" where
  "buffer_from v =
     (case v of
        JString s \<Rightarrow> Some (base64_bytes s)
      | JBuffer b \<Rightarrow> Some b
      | JArray xs \<Rightarrow> Some (map (\<lambda>x. case x of JNumber n \<Rightarrow> of_int n | _ \<Rightarrow> 0) xs)
      | _ \<Rightarrow> None)"

definition date_from :: "jsval \<Rightarrow> date option" where
  "date_from v =
     (case v of
        JString s \<Rightarrow> parse_iso s
      | JNumber n \<Rightarrow> Some n
      | JDate d \<Rightarrow> Some d
      | _ \<Rightarrow> None)"

definition reference_storage_platform :: storage_platform where
  "reference_storage_platform =
     \<lparr> JSON_stringify = json_text, JSON_parse = parse_json, base64_encode = base64_text,
       Buffer_from_base64 = buffer_from, Date_new = date_from \<rparr>"

text \<open>
  Modelled from the spec: the default storage adapter is not among the sources. An
  adapter that keeps the records in memory, by name: \<open>load\<close> returns the bytes or null,
  \<open>store\<close> fails with \<open>StorageEntryAlreadyExistsError\<close> when the name exists, \<open>update\<close>
  replaces the bytes.
\<close>

definition memory_adapter :: "(string \<times> bytes) list adapter" where
  "memory_adapter =
     \<lparr> adapter_load = (\<lambda>st name. Inr (map_of st name)),
       adapter_store = (\<lambda>st name d.
          if name \<in> fst ` set st then Inl (StorageError ''StorageEntryAlreadyExistsError'')
          else Inr (st @ [(name, d)])),
       adapter_update = (\<lambda>st name d.
          Inr (map (\<lambda>(k, v). if k = name then (k, d) else (k, v)) st)) \<rparr>"

text \<open>Tokens used to evaluate the model.\<close>

definition example_header :: jwt_header where
  "example_header =
     \<lparr> alg = ''VEDS512'', typ' = ''JWT'', cty = ''virgil-jwt;v=1'', kid = ''k1'' \<rparr>"

definition example_body :: jwt_body where
  "example_body =
     \<lparr> iss = ''virgil-app'', sub = ''identity-bob'', iat = 1700000000, exp = 1700000900,
       ada = None \<rparr>"

definition example_body_ada :: jwt_body where
  "example_body_ada = example_body \<lparr> ada := Some [(''a'', ''b''), (''c'', ''d'')] \<rparr>"

definition unprefixed_body :: jwt_body where
  "unprefixed_body = example_body \<lparr> iss := ''app'', sub := ''bob'' \<rparr>"

definition example_jwt :: jwt where
  "example_jwt = new_Jwt reference_platform example_header example_body (Some [1, 2, 3])"

text \<open>A provider with an empty cache after one call of \<open>getJwt\<close>: a renewal is in flight.\<close>

definition in_flight_world :: "string world" where
  "in_flight_world =
     run reference_platform (empty_world None) [GetToken ''first'' 1700000000000 None]"

text \<open>The memory adapter holding the record that \<open>save\<close> writes for the key \<open>k\<close>.\<close>

definition stored_example :: "(string \<times> bytes) list" where
  \<open>stored_example =
     [(''k'', utf8_encode
         ''{"name":"k","creationDate":"2023-11-14T22:13:20.000Z","modificationDate":"2023-11-14T22:13:20.000Z","value":"AQID"}'')]\<close>

section \<open>Properties of Jwt\<close>

subsection \<open>Strings, bytes and splitting\<close>

lemma byte_char: "char_of (unat (of_char c :: 8 word)) = c"
proof -
  have lt: "(of_char c :: nat) < 256" by simp
  have "unat (of_nat (of_char c :: nat) :: 8 word) = (of_char c :: nat) mod 2 ^ 8"
    by (simp only: unat_of_nat) simp
  then have "unat (of_char c :: 8 word) = (of_char c :: nat)"
    using lt by (simp add: of_nat_of_char)
  then show ?thesis by simp
qed

lemma utf8_decode_encode: "utf8_decode (utf8_encode s) = s"
  by (simp add: utf8_decode_def utf8_encode_def comp_def byte_char)

lemma split_on_no_sep: "c \<notin> set s \<Longrightarrow> split_on c s = [s]"
  by (induction s) auto

lemma split_on_append: "c \<notin> set a \<Longrightarrow> split_on c (a @ c # r) = a # split_on c r"
  by (induction a) (auto split: list.splits)

lemma split_three:
  assumes "CHR ''.'' \<notin> set a" "CHR ''.'' \<notin> set b" "CHR ''.'' \<notin> set c"
  shows "split_on (CHR ''.'') (a @ CHR ''.'' # b @ CHR ''.'' # c) = [a, b, c]"
  using assms by (simp add: split_on_append split_on_no_sep)

lemma split_two:
  assumes "CHR ''.'' \<notin> set a" "CHR ''.'' \<notin> set b"
  shows "split_on (CHR ''.'') (a @ CHR ''.'' # b) = [a, b]"
  using assms by (simp add: split_on_append split_on_no_sep)

lemma indexOf_range: "indexOf s pat = - 1 \<or> 0 \<le> indexOf s pat"
  by (induction s) (auto simp: Let_def)

lemma indexOf_zero_iff: "indexOf s pat = 0 \<longleftrightarrow> prefix pat s"
proof (cases s)
  case Nil
  then show ?thesis by auto
next
  case (Cons x xs)
  have "indexOf xs pat = - 1 \<or> 0 \<le> indexOf xs pat" by (rule indexOf_range)
  then show ?thesis using Cons by (auto simp: Let_def)
qed

subsection \<open>The wire string and its parser\<close>

lemma toString_signed:
  "toString (new_Jwt p h b (Some sg)) =
     headerBase64 p h @ CHR ''.'' # bodyBase64 p b @ CHR ''.'' # signatureBase64 p sg"
  by (simp add: toString_def new_Jwt_def Let_def)

lemma toString_unsigned:
  "toString (new_Jwt p h b None) = headerBase64 p h @ CHR ''.'' # bodyBase64 p b"
  by (simp add: toString_def new_Jwt_def Let_def)

lemma body_new_Jwt: "body (new_Jwt p h b sg) = b"
  by (simp add: new_Jwt_def Let_def)

lemma fromString_parts:
  assumes "split_on (CHR ''.'') s = [a, b, c]"
  shows "fromString p s =
     (case base64UrlDecode p a of None \<Rightarrow> Inl WrongJwtFormat | Some hb \<Rightarrow>
     (case base64UrlDecode p b of None \<Rightarrow> Inl WrongJwtFormat | Some bb \<Rightarrow>
     (case base64UrlDecode p c of None \<Rightarrow> Inl WrongJwtFormat | Some sg \<Rightarrow>
     (case JSON_parse_header p (utf8_decode hb) of None \<Rightarrow> Inl WrongJwtFormat | Some h \<Rightarrow>
     (case JSON_parse_body p (utf8_decode bb) of None \<Rightarrow> Inl WrongJwtFormat | Some bd \<Rightarrow>
        Inr (new_Jwt p h bd (Some sg)))))))"
  using assms by (simp add: fromString_def Let_def split: option.splits)

lemma fromString_error_kind: "fromString p s = Inl e \<Longrightarrow> e = WrongJwtFormat"
  by (cases e) (auto simp: fromString_def Let_def split: if_splits option.splits)

text \<open>
  C2. A token built from a header, a body and a signature is read back unchanged from
  its string form: \<open>fromString\<close> applied to \<open>toString\<close> succeeds with a token whose
  header is the original header, whose body is the original body and whose signature
  is the original signature bytes (it is the original token, derived fields
  included). The triple is valid when the platform codecs invert each other on it:
  base64url output holds no dot and decodes to the encoded bytes, and \<open>JSON.parse\<close>
  reads back what \<open>JSON.stringify\<close> wrote for the header and for the body.
\<close>

theorem jwt_round_trip:
  assumes "CHR ''.'' \<notin> set (headerBase64 p h)"
    and "CHR ''.'' \<notin> set (bodyBase64 p b)"
    and "CHR ''.'' \<notin> set (signatureBase64 p sg)"
    and "base64UrlDecode p (headerBase64 p h) = Some (utf8_encode (JSON_stringify_header p h))"
    and "base64UrlDecode p (bodyBase64 p b) = Some (utf8_encode (JSON_stringify_body p b))"
    and "base64UrlDecode p (signatureBase64 p sg) = Some sg"
    and "JSON_parse_header p (JSON_stringify_header p h) = Some h"
    and "JSON_parse_body p (JSON_stringify_body p b) = Some b"
  shows "\<exists>t. fromString p (toString (new_Jwt p h b (Some sg))) = Inr t
           \<and> header t = h \<and> body t = b \<and> signature t = Some sg
           \<and> t = new_Jwt p h b (Some sg)"
proof -
  have "split_on (CHR ''.'') (toString (new_Jwt p h b (Some sg))) =
          [headerBase64 p h, bodyBase64 p b, signatureBase64 p sg]"
    using assms(1-3) by (simp add: toString_signed split_three)
  then have "fromString p (toString (new_Jwt p h b (Some sg))) = Inr (new_Jwt p h b (Some sg))"
    using assms(4-8) by (simp add: fromString_parts utf8_decode_encode)
  moreover have "header (new_Jwt p h b (Some sg)) = h \<and> body (new_Jwt p h b (Some sg)) = b
                 \<and> signature (new_Jwt p h b (Some sg)) = Some sg"
    by (simp add: new_Jwt_def Let_def)
  ultimately show ?thesis by blast
qed

theorem jwt_round_trip_witness:
  "\<exists>t. fromString reference_platform
         (toString (new_Jwt reference_platform example_header example_body_ada
            (Some [1, 2, 3]))) = Inr t
       \<and> header t = example_header \<and> body t = example_body_ada
       \<and> signature t = Some [1, 2, 3]"
proof -
  have 1: "CHR ''.'' \<notin> set (headerBase64 reference_platform example_header)"
    by code_simp
  have 2: "CHR ''.'' \<notin> set (bodyBase64 reference_platform example_body_ada)"
    by code_simp
  have 3: "CHR ''.'' \<notin> set (signatureBase64 reference_platform [1, 2, 3])"
    by code_simp
  have 4: "base64UrlDecode reference_platform (headerBase64 reference_platform example_header)
             = Some (utf8_encode (JSON_stringify_header reference_platform example_header))"
    by code_simp
  have 5: "base64UrlDecode reference_platform (bodyBase64 reference_platform example_body_ada)
             = Some (utf8_encode (JSON_stringify_body reference_platform example_body_ada))"
    by code_simp
  have 6: "base64UrlDecode reference_platform (signatureBase64 reference_platform [1, 2, 3])
             = Some [1, 2, 3]"
    by code_simp
  have 7: "JSON_parse_header reference_platform
             (JSON_stringify_header reference_platform example_header) = Some example_header"
    by code_simp
  have 8: "JSON_parse_body reference_platform
             (JSON_stringify_body reference_platform example_body_ada) = Some example_body_ada"
    by code_simp
  from jwt_round_trip [OF 1 2 3 4 5 6 7 8] show ?thesis by blast
qed

text \<open>
  C5 as stated fails: a wire string whose third part is empty does not split into
  three non-empty parts, yet \<open>fromString\<close> accepts it. The parser counts the parts and
  does not look at their lengths; the string below is the string form of a token signed
  with the empty signature.
\<close>

theorem fromString_empty_signature_part:
  "split_on (CHR ''.'')
     ''eyJhbGciOiJWRURTNTEyIiwidHlwIjoiSldUIiwiY3R5IjoidmlyZ2lsLWp3dDt2PTEiLCJraWQiOiJrMSJ9.eyJpc3MiOiJ2aXJnaWwtYXBwIiwic3ViIjoiaWRlbnRpdHktYm9iIiwiaWF0IjoxNzAwMDAwMDAwLCJleHAiOjE3MDAwMDA5MDB9.''
     = [''eyJhbGciOiJWRURTNTEyIiwidHlwIjoiSldUIiwiY3R5IjoidmlyZ2lsLWp3dDt2PTEiLCJraWQiOiJrMSJ9'',
        ''eyJpc3MiOiJ2aXJnaWwtYXBwIiwic3ViIjoiaWRlbnRpdHktYm9iIiwiaWF0IjoxNzAwMDAwMDAwLCJleHAiOjE3MDAwMDA5MDB9'',
        '''']
   \<and> fromString reference_platform
     ''eyJhbGciOiJWRURTNTEyIiwidHlwIjoiSldUIiwiY3R5IjoidmlyZ2lsLWp3dDt2PTEiLCJraWQiOiJrMSJ9.eyJpc3MiOiJ2aXJnaWwtYXBwIiwic3ViIjoiaWRlbnRpdHktYm9iIiwiaWF0IjoxNzAwMDAwMDAwLCJleHAiOjE3MDAwMDA5MDB9.''
     = Inr (new_Jwt reference_platform example_header example_body (Some []))"
  by code_simp

text \<open>
  C5, amended. \<open>fromString\<close> fails with the one error \<open>Wrong JWT format\<close> for every
  string that does not split on the dot into exactly three parts (so for the
  four-part and the one-part string of the spec), and for every three-part string on
  which base64url decoding of a part or JSON parsing of the header or of the body
  throws. It never fails with another error. A three-part string on which every step
  succeeds is accepted, whether or not one of its parts is empty.
\<close>

theorem fromString_errors:
  "(length (split_on (CHR ''.'') s) \<noteq> 3 \<longrightarrow> fromString p s = Inl WrongJwtFormat)
   \<and> (\<forall>a b c. split_on (CHR ''.'') s = [a, b, c] \<and>
         (base64UrlDecode p a = None \<or> base64UrlDecode p b = None \<or> base64UrlDecode p c = None
          \<or> (\<exists>hb. base64UrlDecode p a = Some hb \<and> JSON_parse_header p (utf8_decode hb) = None)
          \<or> (\<exists>bb. base64UrlDecode p b = Some bb \<and> JSON_parse_body p (utf8_decode bb) = None))
        \<longrightarrow> fromString p s = Inl WrongJwtFormat)
   \<and> (\<forall>a b c hb bb sg h bd. split_on (CHR ''.'') s = [a, b, c] \<and>
         base64UrlDecode p a = Some hb \<and> base64UrlDecode p b = Some bb \<and>
         base64UrlDecode p c = Some sg \<and> JSON_parse_header p (utf8_decode hb) = Some h \<and>
         JSON_parse_body p (utf8_decode bb) = Some bd
        \<longrightarrow> fromString p s = Inr (new_Jwt p h bd (Some sg)))
   \<and> (\<forall>e. fromString p s = Inl e \<longrightarrow> e = WrongJwtFormat)
   \<and> fromString p ''not.a.valid.token'' = Inl WrongJwtFormat
   \<and> fromString p ''onepart'' = Inl WrongJwtFormat"
proof -
  have 1: "length (split_on (CHR ''.'') s) \<noteq> 3 \<longrightarrow> fromString p s = Inl WrongJwtFormat"
    by (simp add: fromString_def)
  have 2: "\<forall>a b c. split_on (CHR ''.'') s = [a, b, c] \<and>
         (base64UrlDecode p a = None \<or> base64UrlDecode p b = None \<or> base64UrlDecode p c = None
          \<or> (\<exists>hb. base64UrlDecode p a = Some hb \<and> JSON_parse_header p (utf8_decode hb) = None)
          \<or> (\<exists>bb. base64UrlDecode p b = Some bb \<and> JSON_parse_body p (utf8_decode bb) = None))
        \<longrightarrow> fromString p s = Inl WrongJwtFormat"
    by (auto simp: fromString_parts split: option.splits)
  have 3: "\<forall>a b c hb bb sg h bd. split_on (CHR ''.'') s = [a, b, c] \<and>
         base64UrlDecode p a = Some hb \<and> base64UrlDecode p b = Some bb \<and>
         base64UrlDecode p c = Some sg \<and> JSON_parse_header p (utf8_decode hb) = Some h \<and>
         JSON_parse_body p (utf8_decode bb) = Some bd
        \<longrightarrow> fromString p s = Inr (new_Jwt p h bd (Some sg))"
    by (auto simp: fromString_parts)
  have 4: "\<forall>e. fromString p s = Inl e \<longrightarrow> e = WrongJwtFormat"
    by (auto dest: fromString_error_kind)
  have 5: "fromString p ''not.a.valid.token'' = Inl WrongJwtFormat"
    by (simp add: fromString_def)
  have 6: "fromString p ''onepart'' = Inl WrongJwtFormat"
    by (simp add: fromString_def)
  from 1 2 3 4 5 6 show ?thesis by blast
qed

theorem fromString_errors_witness:
  "length (split_on (CHR ''.'') ''a.b'') \<noteq> 3
   \<and> fromString reference_platform ''a.b'' = Inl WrongJwtFormat
   \<and> split_on (CHR ''.'') ''e30.e30.A'' = [''e30'', ''e30'', ''A'']
   \<and> base64UrlDecode reference_platform ''A'' = None
   \<and> fromString reference_platform ''e30.e30.A'' = Inl WrongJwtFormat
   \<and> split_on (CHR ''.'') ''ew.e30.AQID'' = [''ew'', ''e30'', ''AQID'']
   \<and> base64UrlDecode reference_platform ''ew'' = Some (utf8_encode ''{'')
   \<and> JSON_parse_header reference_platform (utf8_decode (utf8_encode ''{'')) = None
   \<and> fromString reference_platform ''ew.e30.AQID'' = Inl WrongJwtFormat"
proof -
  have l: "length (split_on (CHR ''.'') ''a.b'') \<noteq> 3" by simp
  have s1: "split_on (CHR ''.'') ''e30.e30.A'' = [''e30'', ''e30'', ''A'']" by simp
  have d1: "base64UrlDecode reference_platform ''A'' = None" by code_simp
  have s2: "split_on (CHR ''.'') ''ew.e30.AQID'' = [''ew'', ''e30'', ''AQID'']" by simp
  have d2: "base64UrlDecode reference_platform ''ew'' = Some (utf8_encode ''{'')"
    by code_simp
  have j2: "JSON_parse_header reference_platform (utf8_decode (utf8_encode ''{'')) = None"
    by code_simp
  have f0: "fromString reference_platform ''a.b'' = Inl WrongJwtFormat"
    using fromString_errors [of "''a.b''" reference_platform] l by blast
  have f1: "fromString reference_platform ''e30.e30.A'' = Inl WrongJwtFormat"
    using fromString_errors [of "''e30.e30.A''" reference_platform] s1 d1 by blast
  have f2: "fromString reference_platform ''ew.e30.AQID'' = Inl WrongJwtFormat"
    using fromString_errors [of "''ew.e30.AQID''" reference_platform] s2 d2 j2 by blast
  from l s1 d1 s2 d2 j2 f0 f1 f2 show ?thesis by blast
qed

text \<open>
  C8. \<open>identity()\<close> returns \<open>body.sub\<close> without the prefix \<open>identity-\<close> and fails with
  \<open>wrong sub format\<close> exactly when \<open>body.sub\<close> does not start with that prefix;
  \<open>appId()\<close> does the same for \<open>body.iss\<close> and the prefix \<open>virgil-\<close>. The parser does
  not look at the prefixes: a string whose parts decode and parse is accepted whatever
  its subject and issuer are, and the error is raised by \<open>identity()\<close> or \<open>appId()\<close>
  on the parsed token.
\<close>

theorem identity_appId_lazy:
  "identity j =
     (if prefix SubjectPrefix (sub (body j))
      then Inr (drop (length SubjectPrefix) (sub (body j))) else Inl WrongSubFormat)
   \<and> appId j =
     (if prefix IssuerPrefix (iss (body j))
      then Inr (drop (length IssuerPrefix) (iss (body j))) else Inl WrongIssFormat)
   \<and> (\<forall>r. sub (body j) = SubjectPrefix @ r \<longrightarrow> identity j = Inr r)
   \<and> (\<forall>r. iss (body j) = IssuerPrefix @ r \<longrightarrow> appId j = Inr r)
   \<and> (split_on (CHR ''.'') s = [a, b, c] \<and>
       base64UrlDecode p a = Some hb \<and> base64UrlDecode p b = Some bb \<and>
       base64UrlDecode p c = Some sg \<and> JSON_parse_header p (utf8_decode hb) = Some h \<and>
       JSON_parse_body p (utf8_decode bb) = Some bd
      \<longrightarrow> (\<exists>t. fromString p s = Inr t \<and> body t = bd
             \<and> (\<not> prefix SubjectPrefix (sub bd) \<longrightarrow> identity t = Inl WrongSubFormat)
             \<and> (\<not> prefix IssuerPrefix (iss bd) \<longrightarrow> appId t = Inl WrongIssFormat)))"
proof -
  have 1: "identity j =
     (if prefix SubjectPrefix (sub (body j))
      then Inr (drop (length SubjectPrefix) (sub (body j))) else Inl WrongSubFormat)" for j
    by (simp add: identity_def indexOf_zero_iff substr_def)
  have 2: "appId j =
     (if prefix IssuerPrefix (iss (body j))
      then Inr (drop (length IssuerPrefix) (iss (body j))) else Inl WrongIssFormat)" for j
    by (simp add: appId_def indexOf_zero_iff substr_def)
  have 3: "\<forall>r. sub (body j) = SubjectPrefix @ r \<longrightarrow> identity j = Inr r"
    by (simp add: 1)
  have 4: "\<forall>r. iss (body j) = IssuerPrefix @ r \<longrightarrow> appId j = Inr r"
    by (simp add: 2)
  have 5: "split_on (CHR ''.'') s = [a, b, c] \<and>
       base64UrlDecode p a = Some hb \<and> base64UrlDecode p b = Some bb \<and>
       base64UrlDecode p c = Some sg \<and> JSON_parse_header p (utf8_decode hb) = Some h \<and>
       JSON_parse_body p (utf8_decode bb) = Some bd
      \<longrightarrow> (\<exists>t. fromString p s = Inr t \<and> body t = bd
             \<and> (\<not> prefix SubjectPrefix (sub bd) \<longrightarrow> identity t = Inl WrongSubFormat)
             \<and> (\<not> prefix IssuerPrefix (iss bd) \<longrightarrow> appId t = Inl WrongIssFormat))"
  proof
    assume a: "split_on (CHR ''.'') s = [a, b, c] \<and>
       base64UrlDecode p a = Some hb \<and> base64UrlDecode p b = Some bb \<and>
       base64UrlDecode p c = Some sg \<and> JSON_parse_header p (utf8_decode hb) = Some h \<and>
       JSON_parse_body p (utf8_decode bb) = Some bd"
    then have f: "fromString p s = Inr (new_Jwt p h bd (Some sg))"
      by (simp add: fromString_parts)
    show "\<exists>t. fromString p s = Inr t \<and> body t = bd
             \<and> (\<not> prefix SubjectPrefix (sub bd) \<longrightarrow> identity t = Inl WrongSubFormat)
             \<and> (\<not> prefix IssuerPrefix (iss bd) \<longrightarrow> appId t = Inl WrongIssFormat)"
      using f 1 [of "new_Jwt p h bd (Some sg)"] 2 [of "new_Jwt p h bd (Some sg)"]
      by (simp add: body_new_Jwt)
  qed
  from 1 2 3 4 5 show ?thesis by blast
qed

theorem identity_appId_lazy_witness:
  "split_on (CHR ''.'')
     ''eyJhbGciOiJWRURTNTEyIiwidHlwIjoiSldUIiwiY3R5IjoidmlyZ2lsLWp3dDt2PTEiLCJraWQiOiJrMSJ9.eyJpc3MiOiJhcHAiLCJzdWIiOiJib2IiLCJpYXQiOjE3MDAwMDAwMDAsImV4cCI6MTcwMDAwMDkwMH0.AQID''
     = [''eyJhbGciOiJWRURTNTEyIiwidHlwIjoiSldUIiwiY3R5IjoidmlyZ2lsLWp3dDt2PTEiLCJraWQiOiJrMSJ9'',
        ''eyJpc3MiOiJhcHAiLCJzdWIiOiJib2IiLCJpYXQiOjE3MDAwMDAwMDAsImV4cCI6MTcwMDAwMDkwMH0'',
        ''AQID'']
   \<and> \<not> prefix SubjectPrefix (sub unprefixed_body)
   \<and> \<not> prefix IssuerPrefix (iss unprefixed_body)
   \<and> (\<exists>t. fromString reference_platform
     ''eyJhbGciOiJWRURTNTEyIiwidHlwIjoiSldUIiwiY3R5IjoidmlyZ2lsLWp3dDt2PTEiLCJraWQiOiJrMSJ9.eyJpc3MiOiJhcHAiLCJzdWIiOiJib2IiLCJpYXQiOjE3MDAwMDAwMDAsImV4cCI6MTcwMDAwMDkwMH0.AQID''
         = Inr t
       \<and> body t = unprefixed_body
       \<and> identity t = Inl WrongSubFormat \<and> appId t = Inl WrongIssFormat)"
proof -
  have s: "split_on (CHR ''.'')
     ''eyJhbGciOiJWRURTNTEyIiwidHlwIjoiSldUIiwiY3R5IjoidmlyZ2lsLWp3dDt2PTEiLCJraWQiOiJrMSJ9.eyJpc3MiOiJhcHAiLCJzdWIiOiJib2IiLCJpYXQiOjE3MDAwMDAwMDAsImV4cCI6MTcwMDAwMDkwMH0.AQID''
     = [''eyJhbGciOiJWRURTNTEyIiwidHlwIjoiSldUIiwiY3R5IjoidmlyZ2lsLWp3dDt2PTEiLCJraWQiOiJrMSJ9'',
        ''eyJpc3MiOiJhcHAiLCJzdWIiOiJib2IiLCJpYXQiOjE3MDAwMDAwMDAsImV4cCI6MTcwMDAwMDkwMH0'',
        ''AQID'']"
    by code_simp
  have a: "base64UrlDecode reference_platform
     ''eyJhbGciOiJWRURTNTEyIiwidHlwIjoiSldUIiwiY3R5IjoidmlyZ2lsLWp3dDt2PTEiLCJraWQiOiJrMSJ9''
     = Some (utf8_encode (header_text example_header))"
    by code_simp
  have b: "base64UrlDecode reference_platform
     ''eyJpc3MiOiJhcHAiLCJzdWIiOiJib2IiLCJpYXQiOjE3MDAwMDAwMDAsImV4cCI6MTcwMDAwMDkwMH0''
     = Some (utf8_encode (body_text unprefixed_body))"
    by code_simp
  have c: "base64UrlDecode reference_platform ''AQID'' = Some [1, 2, 3]"
    by code_simp
  have h: "JSON_parse_header reference_platform
     (utf8_decode (utf8_encode (header_text example_header))) = Some example_header"
    by code_simp
  have bd: "JSON_parse_body reference_platform
     (utf8_decode (utf8_encode (body_text unprefixed_body))) = Some unprefixed_body"
    by code_simp
  have ns: "\<not> prefix SubjectPrefix (sub unprefixed_body)"
    by (simp add: SubjectPrefix_def unprefixed_body_def)
  have ni: "\<not> prefix IssuerPrefix (iss unprefixed_body)"
    by (simp add: IssuerPrefix_def unprefixed_body_def)
  show ?thesis
    using identity_appId_lazy
      [of "new_Jwt reference_platform example_header example_body None"
          "''eyJhbGciOiJWRURTNTEyIiwidHlwIjoiSldUIiwiY3R5IjoidmlyZ2lsLWp3dDt2PTEiLCJraWQiOiJrMSJ9.eyJpc3MiOiJhcHAiLCJzdWIiOiJib2IiLCJpYXQiOjE3MDAwMDAwMDAsImV4cCI6MTcwMDAwMDkwMH0.AQID''"
          "''eyJhbGciOiJWRURTNTEyIiwidHlwIjoiSldUIiwiY3R5IjoidmlyZ2lsLWp3dDt2PTEiLCJraWQiOiJrMSJ9''"
          "''eyJpc3MiOiJhcHAiLCJzdWIiOiJib2IiLCJpYXQiOjE3MDAwMDAwMDAsImV4cCI6MTcwMDAwMDkwMH0''"
          "''AQID''" reference_platform
          "utf8_encode (header_text example_header)"
          "utf8_encode (body_text unprefixed_body)"
          "[1, 2, 3]" example_header unprefixed_body]
      s a b c h bd ns ni
    by blast
qed

text \<open>
  C9. \<open>isExpired(at)\<close> holds exactly when \<open>body.exp\<close> is strictly below the Unix
  seconds of \<open>at\<close>: a token whose \<open>exp\<close> is the current second is not expired now and
  is expired at every date whose Unix seconds are one more, such as the date one
  second later.
\<close>

theorem isExpired_strict:
  "(isExpired j at \<longleftrightarrow> exp (body j) < getUnixTimestamp at)
   \<and> (exp (body j) = getUnixTimestamp now \<longrightarrow>
        \<not> isExpired j now
        \<and> (\<forall>later. getUnixTimestamp later = getUnixTimestamp now + 1 \<longrightarrow> isExpired j later)
        \<and> getUnixTimestamp (addSeconds now 1) = getUnixTimestamp now + 1
        \<and> isExpired j (addSeconds now 1))"
proof -
  have 1: "isExpired j at \<longleftrightarrow> exp (body j) < getUnixTimestamp at" for at
    by (simp add: isExpired_def)
  have 2: "getUnixTimestamp (addSeconds now 1) = getUnixTimestamp now + 1"
    by (simp add: getUnixTimestamp_def addSeconds_def)
  show ?thesis
    by (simp add: 1 2)
qed

theorem isExpired_strict_witness:
  "exp (body (new_Jwt reference_platform example_header example_body None))
     = getUnixTimestamp 1700000900123
   \<and> \<not> isExpired (new_Jwt reference_platform example_header example_body None) 1700000900123
   \<and> isExpired (new_Jwt reference_platform example_header example_body None)
       (addSeconds 1700000900123 1)"
proof -
  have e: "exp (body (new_Jwt reference_platform example_header example_body None))
             = getUnixTimestamp 1700000900123"
    by (simp add: body_new_Jwt example_body_def getUnixTimestamp_def)
  show ?thesis
    using isExpired_strict
      [of "new_Jwt reference_platform example_header example_body None" 0 1700000900123] e
    by simp
qed

text \<open>
  C10. A token constructed without a signature has a two-part string form, the
  base64url header and body joined by one dot with nothing after the body, and
  \<open>fromString\<close> rejects that string because it has two parts, not three. The base64url
  encoder is taken to write no dot.
\<close>

theorem unsigned_jwt_not_parsed:
  assumes "CHR ''.'' \<notin> set (headerBase64 p h)"
    and "CHR ''.'' \<notin> set (bodyBase64 p b)"
  shows "toString (new_Jwt p h b None) = headerBase64 p h @ ''.'' @ bodyBase64 p b
     \<and> split_on (CHR ''.'') (toString (new_Jwt p h b None)) = [headerBase64 p h, bodyBase64 p b]
     \<and> fromString p (toString (new_Jwt p h b None)) = Inl WrongJwtFormat"
proof -
  have sp: "split_on (CHR ''.'') (toString (new_Jwt p h b None))
              = [headerBase64 p h, bodyBase64 p b]"
    using assms by (simp add: toString_unsigned split_two)
  then have "fromString p (toString (new_Jwt p h b None)) = Inl WrongJwtFormat"
    by (simp add: fromString_def)
  with sp show ?thesis by (simp add: toString_unsigned)
qed

theorem unsigned_jwt_not_parsed_witness:
  "toString (new_Jwt reference_platform example_header example_body None) =
     ''eyJhbGciOiJWRURTNTEyIiwidHlwIjoiSldUIiwiY3R5IjoidmlyZ2lsLWp3dDt2PTEiLCJraWQiOiJrMSJ9.eyJpc3MiOiJ2aXJnaWwtYXBwIiwic3ViIjoiaWRlbnRpdHktYm9iIiwiaWF0IjoxNzAwMDAwMDAwLCJleHAiOjE3MDAwMDA5MDB9''
   \<and> fromString reference_platform
       (toString (new_Jwt reference_platform example_header example_body None))
     = Inl WrongJwtFormat"
proof -
  have 1: "CHR ''.'' \<notin> set (headerBase64 reference_platform example_header)"
    by code_simp
  have 2: "CHR ''.'' \<notin> set (bodyBase64 reference_platform example_body)"
    by code_simp
  have 3: "headerBase64 reference_platform example_header @ ''.'' @
           bodyBase64 reference_platform example_body =
     ''eyJhbGciOiJWRURTNTEyIiwidHlwIjoiSldUIiwiY3R5IjoidmlyZ2lsLWp3dDt2PTEiLCJraWQiOiJrMSJ9.eyJpc3MiOiJ2aXJnaWwtYXBwIiwic3ViIjoiaWRlbnRpdHktYm9iIiwiaWF0IjoxNzAwMDAwMDAwLCJleHAiOjE3MDAwMDA5MDB9''"
    by code_simp
  note r = unsigned_jwt_not_parsed [OF 1 2]
  from r have t: "toString (new_Jwt reference_platform example_header example_body None) =
           headerBase64 reference_platform example_header @ ''.'' @
           bodyBase64 reference_platform example_body"
    by (rule conjunct1)
  from r have f: "fromString reference_platform
       (toString (new_Jwt reference_platform example_header example_body None))
     = Inl WrongJwtFormat"
    by blast
  from t 3 have "toString (new_Jwt reference_platform example_header example_body None) =
     ''eyJhbGciOiJWRURTNTEyIiwidHlwIjoiSldUIiwiY3R5IjoidmlyZ2lsLWp3dDt2PTEiLCJraWQiOiJrMSJ9.eyJpc3MiOiJ2aXJnaWwtYXBwIiwic3ViIjoiaWRlbnRpdHktYm9iIiwiaWF0IjoxNzAwMDAwMDAwLCJleHAiOjE3MDAwMDA5MDB9''"
    by (rule trans)
  with f show ?thesis by blast
qed

subsection \<open>The reference base64url codec\<close>

text \<open>
  The base64url codec of the reference platform meets, on every input, what the
  results above ask of the platform: its text holds no dot and decodes to the encoded
  bytes. On the reference platform a signed token is therefore read back unchanged
  whenever the JSON codec reads back the header and the body, and an unsigned token is
  always rejected.
\<close>

lemma sextets_step_bounds:
  fixes a b c :: nat
  assumes "a < 256" "b < 256" "c < 256"
  shows "a div 4 < 64" "a mod 4 * 16 + b div 16 < 64" "b mod 16 * 4 + c div 64 < 64"
    "c mod 64 < 64" "b mod 16 * 4 < 64" "a mod 4 * 16 < 64"
proof -
  have "a mod 4 < 4" "b mod 16 < 16" "b div 16 < 16" "c div 64 < 4"
    using assms by simp_all
  then show "a mod 4 * 16 + b div 16 < 64" "b mod 16 * 4 + c div 64 < 64"
    "b mod 16 * 4 < 64" "a mod 4 * 16 < 64"
    by linarith+
  show "a div 4 < 64" "c mod 64 < 64" using assms by simp_all
qed

lemma octets_step:
  fixes a b c :: nat
  assumes "b < 256" "c < 256"
  shows "a div 4 * 4 + (a mod 4 * 16 + b div 16) div 16 = a"
    "(a mod 4 * 16 + b div 16) mod 16 * 16 + (b mod 16 * 4 + c div 64) div 4 = b"
    "(b mod 16 * 4 + c div 64) mod 4 * 64 + c mod 64 = c"
    "(a mod 4 * 16 + b div 16) mod 16 * 16 + (b mod 16 * 4) div 4 = b"
    "a div 4 * 4 + (a mod 4 * 16) div 16 = a"
proof -
  have b16: "b div 16 < 16" and c64: "c div 64 < 4" using assms by simp_all
  have 1: "(a mod 4 * 16 + b div 16) div 16 = a mod 4" using b16 by simp
  have 2: "(a mod 4 * 16 + b div 16) mod 16 = b div 16" using b16 by simp
  have 3: "(b mod 16 * 4 + c div 64) div 4 = b mod 16" using c64 by simp
  have 4: "(b mod 16 * 4 + c div 64) mod 4 = c div 64" using c64 by simp
  show "a div 4 * 4 + (a mod 4 * 16 + b div 16) div 16 = a"
    by (simp only: 1) simp
  show "(a mod 4 * 16 + b div 16) mod 16 * 16 + (b mod 16 * 4 + c div 64) div 4 = b"
    by (simp only: 2 3) simp
  show "(b mod 16 * 4 + c div 64) mod 4 * 64 + c mod 64 = c"
    by (simp only: 4) simp
  show "(a mod 4 * 16 + b div 16) mod 16 * 16 + (b mod 16 * 4) div 4 = b"
    by (simp only: 2) simp
  show "a div 4 * 4 + (a mod 4 * 16) div 16 = a" by simp
qed


lemma takeWhile_nth_distinct:
  "distinct xs \<Longrightarrow> n < length xs \<Longrightarrow> length (takeWhile (\<lambda>x. x \<noteq> xs ! n) xs) = n"
proof (induction xs arbitrary: n)
  case Nil
  then show ?case by simp
next
  case (Cons a xs)
  show ?case
  proof (cases n)
    case 0
    then show ?thesis by simp
  next
    case (Suc m)
    with Cons.prems have "a \<noteq> xs ! m" by auto
    with Suc Cons show ?thesis by simp
  qed
qed

lemma distinct_base64url_alphabet: "distinct base64url_alphabet"
  by code_simp

lemma length_base64url_alphabet: "length base64url_alphabet = 64"
  by (simp add: base64url_alphabet_def)

lemma sextet_of_nth:
  "n < 64 \<Longrightarrow> sextet_of base64url_alphabet (base64url_alphabet ! n) = n"
  unfolding sextet_of_def
  by (rule takeWhile_nth_distinct)
     (simp_all add: distinct_base64url_alphabet length_base64url_alphabet)

lemma sextets_bound: "\<forall>b \<in> set bs. b < 256 \<Longrightarrow> \<forall>x \<in> set (sextets bs). x < 64"
proof (induction bs rule: sextets.induct)
  case (1 a b c r)
  then have "a < 256" "b < 256" "c < 256" by simp_all
  from sextets_step_bounds [OF this] 1 show ?case by simp
next
  case (2 a b)
  then have "a < 256" "b < 256" "b < 256" by simp_all
  from sextets_step_bounds [OF this] show ?case by simp
next
  case (3 a)
  then have "a < 256" "a < 256" "a < 256" by simp_all
  from sextets_step_bounds [OF this] show ?case by simp
next
  case 4
  then show ?case by simp
qed

lemma octets_sextets: "\<forall>b \<in> set bs. b < 256 \<Longrightarrow> octets (sextets bs) = Some bs"
proof (induction bs rule: sextets.induct)
  case (1 a b c r)
  then have "b < 256" "c < 256" by simp_all
  from octets_step [OF this] 1 show ?case by simp
next
  case (2 a b)
  then have "b < 256" "b < 256" by simp_all
  from octets_step [OF this] show ?case by simp
next
  case (3 a)
  have "(0::nat) < 256" "(0::nat) < 256" by simp_all
  from octets_step [OF this] show ?case by simp
next
  case 4
  then show ?case by simp
qed

lemma unat_byte_bound: "\<forall>b \<in> set (map unat (bs :: bytes)). b < 256"
proof -
  have "unat (w :: 8 word) < 256" for w
    using unsigned_less [of w, where 'a = nat] by simp
  then show ?thesis by simp
qed

lemma base64url_encode_alphabet: "set (base64url_encode bs) \<subseteq> set base64url_alphabet"
proof -
  have "\<forall>x \<in> set (sextets (map unat bs)). x < 64"
    by (rule sextets_bound) (rule unat_byte_bound)
  then show ?thesis
    by (auto simp: base64url_encode_def length_base64url_alphabet)
qed

lemma base64url_no_dot: "CHR ''.'' \<notin> set (base64url_encode bs)"
proof -
  have "CHR ''.'' \<notin> set base64url_alphabet" by (simp add: base64url_alphabet_def)
  with base64url_encode_alphabet show ?thesis by blast
qed

lemma base64url_decode_encode: "base64url_decode (base64url_encode bs) = Some bs"
proof -
  have b: "\<forall>x \<in> set (sextets (map unat bs)). x < 64"
    by (rule sextets_bound) (rule unat_byte_bound)
  then have "map (sextet_of base64url_alphabet) (base64url_encode bs) = sextets (map unat bs)"
    by (simp add: base64url_encode_def sextet_of_nth map_idI)
  moreover have "octets (sextets (map unat bs)) = Some (map unat bs)"
    by (rule octets_sextets) (rule unat_byte_bound)
  moreover have "\<forall>c \<in> set (base64url_encode bs). c \<in> set base64url_alphabet"
    using base64url_encode_alphabet by blast
  ultimately show ?thesis
    by (simp add: base64url_decode_def comp_def)
qed

lemma reference_round_trip:
  assumes "parse_header_text (header_text h) = Some h"
    and "parse_body_text (body_text b) = Some b"
  shows "\<exists>t. fromString reference_platform
               (toString (new_Jwt reference_platform h b (Some sg))) = Inr t
           \<and> header t = h \<and> body t = b \<and> signature t = Some sg"
proof -
  let ?p = reference_platform
  have "split_on (CHR ''.'') (toString (new_Jwt ?p h b (Some sg))) =
          [headerBase64 ?p h, bodyBase64 ?p b, signatureBase64 ?p sg]"
    by (simp add: toString_signed split_three headerBase64_def bodyBase64_def
                  signatureBase64_def reference_platform_def base64url_no_dot)
  then have "fromString ?p (toString (new_Jwt ?p h b (Some sg)))
               = Inr (new_Jwt ?p h b (Some sg))"
    using assms
    by (simp add: fromString_parts utf8_decode_encode headerBase64_def bodyBase64_def
                  signatureBase64_def reference_platform_def base64url_decode_encode)
  moreover have "header (new_Jwt ?p h b (Some sg)) = h \<and> body (new_Jwt ?p h b (Some sg)) = b
                 \<and> signature (new_Jwt ?p h b (Some sg)) = Some sg"
    by (simp add: new_Jwt_def Let_def)
  ultimately show ?thesis by blast
qed

lemma reference_unsigned_rejected:
  "fromString reference_platform (toString (new_Jwt reference_platform h b None))
     = Inl WrongJwtFormat"
proof -
  let ?p = reference_platform
  have "split_on (CHR ''.'') (toString (new_Jwt ?p h b None)) =
          [headerBase64 ?p h, bodyBase64 ?p b]"
    by (simp add: toString_unsigned split_two headerBase64_def bodyBase64_def
                  reference_platform_def base64url_no_dot)
  then show ?thesis by (simp add: fromString_def)
qed

section \<open>Properties of CachingJwtProvider\<close>

subsection \<open>One renewal at a time\<close>

lemma single_flight_empty: "single_flight (empty_world c)"
  by (simp add: single_flight_def empty_world_def)

lemma single_flight_new:
  "new_CachingJwtProvider p i = Inr st \<Longrightarrow> single_flight st"
  by (auto simp: new_CachingJwtProvider_def single_flight_empty
           split: initial_token.splits if_splits sum.splits)

lemma getJwt_in_flight:
  "jwtPromise st = Some h \<Longrightarrow> stale st now \<Longrightarrow> getJwt st c now thrown = (Pending h, st)"
  by (auto simp: getJwt_def stale_def Let_def split: option.splits)

lemma getJwt_fresh:
  "cachedJwt st = Some jwt \<Longrightarrow> \<not> isExpired jwt (addSeconds now TOKEN_EXPIRATION_MARGIN)
   \<Longrightarrow> getJwt st c now thrown = (Resolved jwt, st)"
  by (simp add: getJwt_def Let_def)

lemma getJwt_renew:
  "jwtPromise st = None \<Longrightarrow> stale st now \<Longrightarrow>
   getJwt st c now thrown = start_renewal st c thrown"
  by (simp add: getJwt_def stale_def Let_def split: option.splits)

lemma getJwt_cases:
  "getJwt st c now thrown = (r, st') \<Longrightarrow>
     (st' = st \<and> (\<exists>jwt. r = Resolved jwt \<and> cachedJwt st = Some jwt \<and> \<not> stale st now))
   \<or> (st' = st \<and> stale st now \<and> (\<exists>h. r = Pending h \<and> jwtPromise st = Some h))
   \<or> (stale st now \<and> jwtPromise st = None \<and> (r, st') = start_renewal st c thrown)"
  by (auto simp: getJwt_def stale_def Let_def split: option.splits if_splits)

lemma single_flight_getJwt:
  "single_flight st \<Longrightarrow> getJwt st c now thrown = (r, st') \<Longrightarrow> single_flight st'"
  by (drule getJwt_cases)
     (auto simp: single_flight_def start_renewal_def Let_def split: option.splits)

lemma on_rejected_marker: "on_rejected p st e = (r, st') \<Longrightarrow>
   jwtPromise st' = None \<and> outstanding st' = outstanding st"
  by (auto simp: on_rejected_def split: failure.splits sum.splits)

lemma on_fulfilled_marker: "on_fulfilled p st v = (r, st') \<Longrightarrow>
   jwtPromise st' = None \<and> outstanding st' = outstanding st"
  by (auto simp: on_fulfilled_def on_rejected_def split: token_value.splits sum.splits)

lemma settle_marker:
  "single_flight st \<Longrightarrow> h \<in> set (outstanding st) \<Longrightarrow>
   jwtPromise (settle p st h out) = None \<and> outstanding (settle p st h out) = []"
  by (cases out)
     (auto simp: settle_def single_flight_def Let_def split: option.splits prod.splits
           dest!: on_rejected_marker on_fulfilled_marker)

lemma single_flight_settle: "single_flight st \<Longrightarrow> single_flight (settle p st h out)"
proof (cases "h \<in> set (outstanding st)")
  case True
  assume "single_flight st"
  from settle_marker [OF this True] show ?thesis by (simp add: single_flight_def)
next
  case False
  assume "single_flight st"
  with False show ?thesis by (simp add: settle_def)
qed

lemma single_flight_step: "single_flight st \<Longrightarrow> single_flight (step p st ev)"
proof (cases ev)
  case (GetToken c now thrown)
  assume sf: "single_flight st"
  obtain r st' where g: "getJwt st c now thrown = (r, st')" by (cases "getJwt st c now thrown")
  from single_flight_getJwt [OF sf g] have "single_flight st'" .
  then have "single_flight (st' \<lparr> replies := replies st' @ [r] \<rparr>)"
    by (simp add: single_flight_def split: option.splits)
  with g GetToken show ?thesis by (simp add: step_def)
next
  case (Settle h out)
  assume "single_flight st"
  with Settle show ?thesis by (simp add: step_def single_flight_settle)
qed

lemma single_flight_run: "single_flight st \<Longrightarrow> single_flight (run p st evs)"
  unfolding run_def by (induction evs arbitrary: st) (simp_all add: single_flight_step)

lemma single_flight_at_most_one: "single_flight st \<Longrightarrow> length (outstanding st) \<le> 1"
  by (simp add: single_flight_def split: option.splits)


lemma stale_cong: "cachedJwt st' = cachedJwt st \<Longrightarrow> stale st' now = stale st now"
  by (simp add: stale_def)

lemma run_Cons: "run p st (ev # evs) = run p (step p st ev) evs"
  by (simp add: run_def)

lemma run_Nil: "run p st [] = st"
  by (simp add: run_def)

lemma step_in_flight:
  "jwtPromise st = Some h \<Longrightarrow> stale st now \<Longrightarrow>
   step p st (GetToken c now thrown) = st \<lparr> replies := replies st @ [Pending h] \<rparr>"
  by (simp add: step_def getJwt_in_flight)

lemma run_in_flight:
  "jwtPromise st = Some h \<Longrightarrow> \<forall>(c, now, thrown) \<in> set calls. stale st now \<Longrightarrow>
   run p st (map (\<lambda>(c, now, thrown). GetToken c now thrown) calls)
     = st \<lparr> replies := replies st @ replicate (length calls) (Pending h) \<rparr>"
proof (induction calls arbitrary: st)
  case Nil
  then show ?case by (simp add: run_Nil)
next
  case (Cons x calls)
  obtain c now thrown where x: "x = (c, now, thrown)" by (cases x)
  let ?st = "st \<lparr> replies := replies st @ [Pending h] \<rparr>"
  from Cons.prems x have 1: "step p st (GetToken c now thrown) = ?st"
    by (simp add: step_in_flight)
  have 2: "jwtPromise ?st = Some h" using Cons.prems by simp
  have 3: "\<forall>(c, now, thrown) \<in> set calls. stale ?st now"
    using Cons.prems by (auto simp: stale_def)
  from Cons.IH [OF 2 3] 1 x show ?case
    by (simp add: run_Cons replicate_append_same)
qed

lemma step_first_call:
  "jwtPromise st = None \<Longrightarrow> stale st now \<Longrightarrow>
   step p st (GetToken c now None) =
     st \<lparr> jwtPromise := Some (next_handle st), invocations := c # invocations st,
          outstanding := next_handle st # outstanding st, next_handle := Suc (next_handle st),
          replies := replies st @ [Pending (next_handle st)] \<rparr>"
  by (simp add: step_def getJwt_renew start_renewal_def Let_def)

lemma concurrent_calls:
  assumes "jwtPromise st = None" and "stale st now"
    and "\<forall>(c', t', thr') \<in> set others. stale st t'"
  shows "run p st (GetToken c now None # map (\<lambda>(c', t', thr'). GetToken c' t' thr') others) =
     st \<lparr> jwtPromise := Some (next_handle st), invocations := c # invocations st,
          outstanding := next_handle st # outstanding st, next_handle := Suc (next_handle st),
          replies := replies st @ replicate (Suc (length others)) (Pending (next_handle st)) \<rparr>"
proof -
  let ?s1 = "step p st (GetToken c now None)"
  have s1: "?s1 = st \<lparr> jwtPromise := Some (next_handle st), invocations := c # invocations st,
          outstanding := next_handle st # outstanding st, next_handle := Suc (next_handle st),
          replies := replies st @ [Pending (next_handle st)] \<rparr>"
    using assms(1,2) by (rule step_first_call)
  have a: "jwtPromise ?s1 = Some (next_handle st)" by (simp add: s1)
  have b: "\<forall>(c', t', thr') \<in> set others. stale ?s1 t'"
    using assms(3) by (auto simp: s1 stale_def)
  show ?thesis
    by (simp only: run_Cons run_in_flight [OF a b]) (simp add: s1)
qed

lemma on_rejected_keeps:
  "on_rejected p st e = (r, st') \<Longrightarrow>
     invocations st' = invocations st \<and> results st' = results st \<and> replies st' = replies st"
  by (auto simp: on_rejected_def split: failure.splits sum.splits)

lemma on_fulfilled_keeps:
  "on_fulfilled p st v = (r, st') \<Longrightarrow>
     invocations st' = invocations st \<and> results st' = results st \<and> replies st' = replies st"
  by (auto simp: on_fulfilled_def on_rejected_def split: token_value.splits sum.splits)

lemma settle_invocations: "invocations (settle p st h out) = invocations st"
  by (cases out)
     (auto simp: settle_def Let_def split: prod.splits
           dest!: on_rejected_keeps on_fulfilled_keeps)

lemma settle_resolution:
  "h \<in> set (outstanding st) \<Longrightarrow> \<exists>r. resolution (settle p st h out) (Pending h) = Some r"
  by (cases out) (auto simp: settle_def resolution_def Let_def split: prod.splits)

lemma settle_resolution_jwt:
  "h \<in> set (outstanding st) \<Longrightarrow>
   resolution (settle p st h (Fulfils (TokenJwt jwt))) (Pending h) = Some (Inr jwt)"
  by (simp add: settle_def resolution_def on_fulfilled_def)

lemma settle_resolution_string:
  "h \<in> set (outstanding st) \<Longrightarrow> fromString p s = Inr jwt \<Longrightarrow>
   resolution (settle p st h (Fulfils (TokenString s))) (Pending h) = Some (Inr jwt)"
  by (simp add: settle_def resolution_def on_fulfilled_def)

lemma step_invocations:
  "invocations (step p st ev) \<noteq> invocations st \<Longrightarrow> jwtPromise st = None"
proof (cases ev)
  case (GetToken c now thrown)
  assume d: "invocations (step p st ev) \<noteq> invocations st"
  obtain r st' where g: "getJwt st c now thrown = (r, st')" by (cases "getJwt st c now thrown")
  from d g GetToken have "invocations st' \<noteq> invocations st" by (simp add: step_def)
  with getJwt_cases [OF g] show ?thesis by auto
next
  case (Settle h out)
  assume "invocations (step p st ev) \<noteq> invocations st"
  with Settle show ?thesis by (simp add: step_def settle_invocations)
qed

lemma getJwt_joins:
  "jwtPromise st = Some h \<Longrightarrow> getJwt st c now thrown = (r, st') \<Longrightarrow> st' = st"
  by (drule getJwt_cases) auto


lemma settle_replies: "replies (settle p st h out) = replies st"
  by (cases out)
     (auto simp: settle_def Let_def split: prod.splits
           dest!: on_rejected_keeps on_fulfilled_keeps)

subsection \<open>A renewal in flight and the clock\<close>

lemma stale_mono: "stale st t \<Longrightarrow> t \<le> t' \<Longrightarrow> stale st t'"
proof -
  assume s: "stale st t" and le: "t \<le> t'"
  have "getUnixTimestamp (addSeconds t TOKEN_EXPIRATION_MARGIN)
          \<le> getUnixTimestamp (addSeconds t' TOKEN_EXPIRATION_MARGIN)"
    using le by (simp add: getUnixTimestamp_def addSeconds_def zdiv_mono1)
  with s show ?thesis
    by (auto simp: stale_def isExpired_def split: option.splits)
qed

lemma call_times_append: "call_times (evs @ evs') = call_times evs @ call_times evs'"
  by (induction evs rule: call_times.induct) simp_all

lemma run_append: "run p st (evs @ evs') = run p (run p st evs) evs'"
  by (simp add: run_def)

lemma settle_cases:
  "settle p st h out = st \<or> jwtPromise (settle p st h out) = None"
  by (cases out)
     (auto simp: settle_def Let_def split: prod.splits
           dest!: on_rejected_marker on_fulfilled_marker)

lemma in_flight_stale:
  assumes "jwtPromise st0 = None"
    and "sorted (call_times evs)"
    and "jwtPromise (run p st0 evs) = Some h"
  shows "call_times evs \<noteq> [] \<and> stale (run p st0 evs) (last (call_times evs))"
  using assms(2,3)
proof (induction evs arbitrary: h rule: rev_induct)
  case Nil
  with assms(1) show ?case by (simp add: run_Nil)
next
  case (snoc ev evs)
  let ?st = "run p st0 evs"
  have run: "run p st0 (evs @ [ev]) = step p ?st ev"
    by (simp add: run_append run_Cons run_Nil)
  have sorted_evs: "sorted (call_times evs)"
    using snoc.prems(1) by (simp add: call_times_append sorted_append)
  show ?case
  proof (cases ev)
    case (Settle k out)
    from settle_cases [of p ?st k out] snoc.prems(2) run Settle
    have same: "settle p ?st k out = ?st"
      by (auto simp: step_def)
    with snoc.prems(2) run Settle have "jwtPromise ?st = Some h" by (simp add: step_def)
    from snoc.IH [OF sorted_evs this] same run Settle show ?thesis
      by (simp add: step_def call_times_append)
  next
    case (GetToken c now thrown)
    obtain r st' where g: "getJwt ?st c now thrown = (r, st')"
      by (cases "getJwt ?st c now thrown")
    have times: "call_times (evs @ [ev]) = call_times evs @ [now]"
      using GetToken by (simp add: call_times_append)
    have st: "run p st0 (evs @ [ev]) = st' \<lparr> replies := replies st' @ [r] \<rparr>"
      using run GetToken g by (simp add: step_def)
    have c: "cachedJwt st' = cachedJwt ?st"
      using getJwt_cases [OF g] by (auto simp: start_renewal_def Let_def split: option.splits)
    have "stale ?st now"
    proof (cases "jwtPromise ?st")
      case None
      with getJwt_cases [OF g] snoc.prems(2) st show ?thesis by auto
    next
      case (Some k)
      from snoc.IH [OF sorted_evs Some]
      have ne: "call_times evs \<noteq> []" and s: "stale ?st (last (call_times evs))" by simp_all
      from snoc.prems(1) times ne have "last (call_times evs) \<le> now"
        by (simp add: sorted_append)
      with s show ?thesis by (rule stale_mono)
    qed
    then have "stale (st' \<lparr> replies := replies st' @ [r] \<rparr>) now"
      using c by (simp add: stale_def)
    with st times show ?thesis by simp
  qed
qed

lemma new_provider_marker: "new_CachingJwtProvider p i = Inr st \<Longrightarrow> jwtPromise st = None"
  by (auto simp: new_CachingJwtProvider_def empty_world_def
           split: initial_token.splits if_splits sum.splits)

lemma in_flight_joins:
  assumes "jwtPromise st0 = None"
    and "sorted (call_times evs @ [now])"
    and "jwtPromise (run p st0 evs) = Some h"
  shows "getJwt (run p st0 evs) c now thrown = (Pending h, run p st0 evs)"
proof -
  from assms(2) have s: "sorted (call_times evs)" by (simp add: sorted_append)
  from in_flight_stale [OF assms(1) s assms(3)]
  have ne: "call_times evs \<noteq> []" and st: "stale (run p st0 evs) (last (call_times evs))"
    by simp_all
  from assms(2) ne have "last (call_times evs) \<le> now" by (simp add: sorted_append)
  with st have "stale (run p st0 evs) now" by (rule stale_mono)
  with assms(3) show ?thesis by (rule getJwt_in_flight)
qed

lemma getJwt_throws:
  assumes "stale st now" and "jwtPromise st = None"
  shows "getJwt st context now (Some e) =
           (Threw e, st \<lparr> invocations := context # invocations st \<rparr>)"
  using assms by (simp add: getJwt_def start_renewal_def stale_def split: option.splits)

text \<open>
  C1. In every state the provider reaches from its constructor, by calls of \<open>getJwt\<close>
  and deliveries of renewals in any order, at most one call of \<open>renewJwtFn\<close> is
  outstanding, and the in-flight marker \<open>jwtPromise\<close> is set exactly while one is.
  A call of \<open>getJwt\<close> that arrives while the marker is set changes nothing, so it
  does not call \<open>renewJwtFn\<close>, and with a stale cache it returns the pending promise;
  the cache is stale throughout a renewal when the clock does not run backwards from
  one call to the next.
  When no renewal is in flight and the cache is stale for all of them, any number of
  calls made before the renewal delivers call \<open>renewJwtFn\<close> once, all get the same
  promise, and all resolve to the one result of that renewal. The delivery clears the
  marker, and \<open>renewJwtFn\<close> is called only in a state where the marker is clear.
\<close>

theorem single_flight_renewal:
  assumes "new_CachingJwtProvider p initialToken = Inr st0"
  shows "let st = run p st0 evs in
     length (outstanding st) \<le> 1
   \<and> (jwtPromise st = None \<longleftrightarrow> outstanding st = [])
   \<and> (\<forall>h. jwtPromise st = Some h \<longleftrightarrow> outstanding st = [h])
   \<and> (\<forall>h c now thrown r st'. jwtPromise st = Some h \<and> getJwt st c now thrown = (r, st')
        \<longrightarrow> st' = st \<and> (stale st now \<longrightarrow> r = Pending h))
   \<and> (\<forall>h c now thrown. sorted (call_times evs @ [now]) \<and> jwtPromise st = Some h
        \<longrightarrow> getJwt st c now thrown = (Pending h, st))
   \<and> (jwtPromise st = None \<and> stale st now \<and> (\<forall>(c', t', thr') \<in> set others. stale st t')
        \<longrightarrow> (let st' = run p st (GetToken c now None #
                          map (\<lambda>(c', t', thr'). GetToken c' t' thr') others);
                 h = next_handle st
             in invocations st' = c # invocations st
              \<and> replies st' = replies st @ replicate (Suc (length others)) (Pending h)
              \<and> jwtPromise st' = Some h \<and> outstanding st' = [h]
              \<and> (\<forall>out. let st'' = settle p st' h out
                   in invocations st'' = c # invocations st
                    \<and> replies st'' = replies st'
                    \<and> (\<exists>r. resolution st'' (Pending h) = Some r)
                    \<and> (\<forall>jwt. out = Fulfils (TokenJwt jwt)
                          \<longrightarrow> resolution st'' (Pending h) = Some (Inr jwt))
                    \<and> (\<forall>s jwt. out = Fulfils (TokenString s) \<and> fromString p s = Inr jwt
                          \<longrightarrow> resolution st'' (Pending h) = Some (Inr jwt))
                    \<and> jwtPromise st'' = None \<and> outstanding st'' = [])))
   \<and> (\<forall>h out. h \<in> set (outstanding st)
        \<longrightarrow> jwtPromise (settle p st h out) = None \<and> outstanding (settle p st h out) = [])
   \<and> (\<forall>ev. invocations (step p st ev) \<noteq> invocations st \<longrightarrow> jwtPromise st = None)"
proof -
  define st where "st = run p st0 evs"
  have sf: "single_flight st"
    unfolding st_def using assms by (intro single_flight_run single_flight_new)
  have A: "length (outstanding st) \<le> 1
         \<and> (jwtPromise st = None \<longleftrightarrow> outstanding st = [])
         \<and> (\<forall>h. jwtPromise st = Some h \<longleftrightarrow> outstanding st = [h])"
    using sf by (auto simp: single_flight_def split: option.splits)
  have B: "\<forall>h c now thrown r st'. jwtPromise st = Some h \<and> getJwt st c now thrown = (r, st')
        \<longrightarrow> st' = st \<and> (stale st now \<longrightarrow> r = Pending h)"
    by (auto dest: getJwt_joins simp: getJwt_in_flight)
  have C: "jwtPromise st = None \<and> stale st now \<and> (\<forall>(c', t', thr') \<in> set others. stale st t')
        \<longrightarrow> (let st' = run p st (GetToken c now None #
                          map (\<lambda>(c', t', thr'). GetToken c' t' thr') others);
                 h = next_handle st
             in invocations st' = c # invocations st
              \<and> replies st' = replies st @ replicate (Suc (length others)) (Pending h)
              \<and> jwtPromise st' = Some h \<and> outstanding st' = [h]
              \<and> (\<forall>out. let st'' = settle p st' h out
                   in invocations st'' = c # invocations st
                    \<and> replies st'' = replies st'
                    \<and> (\<exists>r. resolution st'' (Pending h) = Some r)
                    \<and> (\<forall>jwt. out = Fulfils (TokenJwt jwt)
                          \<longrightarrow> resolution st'' (Pending h) = Some (Inr jwt))
                    \<and> (\<forall>s jwt. out = Fulfils (TokenString s) \<and> fromString p s = Inr jwt
                          \<longrightarrow> resolution st'' (Pending h) = Some (Inr jwt))
                    \<and> jwtPromise st'' = None \<and> outstanding st'' = []))"
  proof
    assume a: "jwtPromise st = None \<and> stale st now
               \<and> (\<forall>(c', t', thr') \<in> set others. stale st t')"
    define h where "h = next_handle st"
    define st' where "st' = run p st (GetToken c now None #
                          map (\<lambda>(c', t', thr'). GetToken c' t' thr') others)"
    from a sf have o: "outstanding st = []" by (simp add: single_flight_def)
    have e: "st' = st \<lparr> jwtPromise := Some h, invocations := c # invocations st,
          outstanding := h # outstanding st, next_handle := Suc h,
          replies := replies st @ replicate (Suc (length others)) (Pending h) \<rparr>"
      unfolding st'_def h_def using a by (intro concurrent_calls) auto
    have 1: "invocations st' = c # invocations st" by (simp add: e)
    have 2: "replies st' = replies st @ replicate (Suc (length others)) (Pending h)"
      by (simp add: e)
    have 3: "jwtPromise st' = Some h" by (simp add: e)
    have 4: "outstanding st' = [h]" by (simp add: e o)
    have sf': "single_flight st'" using 3 4 by (simp add: single_flight_def)
    have m: "h \<in> set (outstanding st')" using 4 by simp
    have 5: "invocations (settle p st' h out) = c # invocations st" for out
      by (simp add: settle_invocations 1)
    have 6: "replies (settle p st' h out) = replies st'" for out
      by (rule settle_replies)
    have 7: "\<exists>r. resolution (settle p st' h out) (Pending h) = Some r" for out
      using m by (rule settle_resolution)
    have 8: "out = Fulfils (TokenJwt jwt)
          \<longrightarrow> resolution (settle p st' h out) (Pending h) = Some (Inr jwt)" for out jwt
      using m by (auto simp: settle_resolution_jwt)
    have 9: "out = Fulfils (TokenString s) \<and> fromString p s = Inr jwt
          \<longrightarrow> resolution (settle p st' h out) (Pending h) = Some (Inr jwt)" for out s jwt
      using m by (auto simp: settle_resolution_string)
    have 10: "jwtPromise (settle p st' h out) = None \<and> outstanding (settle p st' h out) = []"
      for out
      using sf' m by (rule settle_marker)
    show "let st' = run p st (GetToken c now None #
                          map (\<lambda>(c', t', thr'). GetToken c' t' thr') others);
                 h = next_handle st
             in invocations st' = c # invocations st
              \<and> replies st' = replies st @ replicate (Suc (length others)) (Pending h)
              \<and> jwtPromise st' = Some h \<and> outstanding st' = [h]
              \<and> (\<forall>out. let st'' = settle p st' h out
                   in invocations st'' = c # invocations st
                    \<and> replies st'' = replies st'
                    \<and> (\<exists>r. resolution st'' (Pending h) = Some r)
                    \<and> (\<forall>jwt. out = Fulfils (TokenJwt jwt)
                          \<longrightarrow> resolution st'' (Pending h) = Some (Inr jwt))
                    \<and> (\<forall>s jwt. out = Fulfils (TokenString s) \<and> fromString p s = Inr jwt
                          \<longrightarrow> resolution st'' (Pending h) = Some (Inr jwt))
                    \<and> jwtPromise st'' = None \<and> outstanding st'' = [])"
      unfolding Let_def st'_def [symmetric] h_def [symmetric]
      using 1 2 3 4 5 6 7 8 9 10 by blast
  qed
  have F: "\<forall>h c now thrown. sorted (call_times evs @ [now]) \<and> jwtPromise st = Some h
        \<longrightarrow> getJwt st c now thrown = (Pending h, st)"
    unfolding st_def using new_provider_marker [OF assms] by (auto intro: in_flight_joins)
  have D: "\<forall>h out. h \<in> set (outstanding st)
        \<longrightarrow> jwtPromise (settle p st h out) = None \<and> outstanding (settle p st h out) = []"
    using sf by (auto dest: settle_marker)
  have E: "\<forall>ev. invocations (step p st ev) \<noteq> invocations st \<longrightarrow> jwtPromise st = None"
    by (auto dest: step_invocations)
  show ?thesis
    unfolding Let_def st_def [symmetric] using A B C D E F unfolding Let_def by blast
qed


theorem single_flight_renewal_witness:
  "new_CachingJwtProvider reference_platform NoToken = Inr (empty_world None :: string world)
   \<and> invocations (run reference_platform (empty_world None)
        (GetToken ''context'' 0 None # replicate 9 (GetToken ''context'' 0 None)))
       = [''context'']
   \<and> replies (run reference_platform (empty_world None)
        (GetToken ''context'' 0 None # replicate 9 (GetToken ''context'' 0 None)))
       = replicate 10 (Pending 0)
   \<and> outstanding (run reference_platform (empty_world None)
        (GetToken ''context'' 0 None # replicate 9 (GetToken ''context'' 0 None)))
       = [0]
   \<and> invocations (settle reference_platform (run reference_platform (empty_world None)
        (GetToken ''context'' 0 None # replicate 9 (GetToken ''context'' 0 None)))
        0 (Fulfils (TokenJwt example_jwt))) = [''context'']
   \<and> resolution (settle reference_platform (run reference_platform (empty_world None)
        (GetToken ''context'' 0 None # replicate 9 (GetToken ''context'' 0 None)))
        0 (Fulfils (TokenJwt example_jwt))) (Pending 0) = Some (Inr example_jwt)
   \<and> jwtPromise (settle reference_platform (run reference_platform (empty_world None)
        (GetToken ''context'' 0 None # replicate 9 (GetToken ''context'' 0 None)))
        0 (Fulfils (TokenJwt example_jwt))) = None
   \<and> sorted (call_times [GetToken ''context'' 0 None] @ [5])
   \<and> jwtPromise (run reference_platform (empty_world None) [GetToken ''context'' 0 None])
       = Some 0
   \<and> getJwt (run reference_platform (empty_world None) [GetToken ''context'' 0 None])
        ''late'' 5 None
       = (Pending 0, run reference_platform (empty_world None) [GetToken ''context'' 0 None])"
proof -
  have init: "new_CachingJwtProvider reference_platform NoToken
                = Inr (empty_world None :: string world)"
    by (simp add: new_CachingJwtProvider_def)
  have m: "map (\<lambda>(c', t', thr'). GetToken c' t' thr') (replicate 9 (''context'', 0, None))
             = replicate 9 (GetToken ''context'' 0 None)"
    by simp
  have s: "stale (empty_world None :: string world) t" for t
    by (simp add: stale_def empty_world_def)
  have e: "jwtPromise (empty_world None :: string world) = None"
          "next_handle (empty_world None :: string world) = 0"
          "invocations (empty_world None :: string world) = []"
          "replies (empty_world None :: string world) = []"
    by (simp_all add: empty_world_def)
  note t = single_flight_renewal [OF init, where evs = "[]" and now = 0
             and c = "''context''" and others = "replicate 9 (''context'', 0, None)"]
  have a: "invocations (run reference_platform (empty_world None)
        (GetToken ''context'' 0 None # replicate 9 (GetToken ''context'' 0 None)))
       = [''context'']
   \<and> replies (run reference_platform (empty_world None)
        (GetToken ''context'' 0 None # replicate 9 (GetToken ''context'' 0 None)))
       = replicate 10 (Pending 0)
   \<and> outstanding (run reference_platform (empty_world None)
        (GetToken ''context'' 0 None # replicate 9 (GetToken ''context'' 0 None)))
       = [0]
   \<and> invocations (settle reference_platform (run reference_platform (empty_world None)
        (GetToken ''context'' 0 None # replicate 9 (GetToken ''context'' 0 None)))
        0 (Fulfils (TokenJwt example_jwt))) = [''context'']
   \<and> resolution (settle reference_platform (run reference_platform (empty_world None)
        (GetToken ''context'' 0 None # replicate 9 (GetToken ''context'' 0 None)))
        0 (Fulfils (TokenJwt example_jwt))) (Pending 0) = Some (Inr example_jwt)
   \<and> jwtPromise (settle reference_platform (run reference_platform (empty_world None)
        (GetToken ''context'' 0 None # replicate 9 (GetToken ''context'' 0 None)))
        0 (Fulfils (TokenJwt example_jwt))) = None"
    using t init s e unfolding Let_def run_Nil m
    by (auto simp: numeral_eq_Suc)
  have so: "sorted (call_times [GetToken ''context'' 0 None] @ [5])"
    by simp
  have jp: "jwtPromise (run reference_platform (empty_world None :: string world)
              [GetToken ''context'' 0 None]) = Some 0"
    by (simp add: run_def step_def getJwt_def start_renewal_def empty_world_def Let_def)
  note u = single_flight_renewal [OF init, where evs = "[GetToken ''context'' 0 None]"]
  have b: "getJwt (run reference_platform (empty_world None) [GetToken ''context'' 0 None])
        ''late'' 5 None
       = (Pending 0, run reference_platform (empty_world None) [GetToken ''context'' 0 None])"
    using u so jp unfolding Let_def by blast
  from init a so jp b show ?thesis by blast
qed

text \<open>
  C3 fails when \<open>renewJwtFn\<close> throws at once. \<open>getJwt\<close> calls \<open>renewJwtFn(context)\<close>
  before any promise exists, so a string thrown by the call itself never reaches the
  \<open>catch\<close> handler: \<open>getJwt\<close> throws that string to its caller and caches nothing,
  even when the string is the string form of a valid token. With an empty cache and
  \<open>renewJwtFn\<close> throwing such a string, the caller gets the string as a failure and
  the cache stays empty; the same string delivered as the rejection of a returned
  promise makes the shared promise resolve with the parsed token, which is cached.
\<close>

theorem sync_throw_not_recovered:
  "fromString reference_platform
       ''eyJhbGciOiJWRURTNTEyIiwidHlwIjoiSldUIiwiY3R5IjoidmlyZ2lsLWp3dDt2PTEiLCJraWQiOiJrMSJ9.eyJpc3MiOiJ2aXJnaWwtYXBwIiwic3ViIjoiaWRlbnRpdHktYm9iIiwiaWF0IjoxNzAwMDAwMDAwLCJleHAiOjE3MDAwMDA5MDB9.AQID''
       = Inr example_jwt
   \<and> getJwt (empty_world None) ''context'' 1700000000000 (Some (ThrownString
       ''eyJhbGciOiJWRURTNTEyIiwidHlwIjoiSldUIiwiY3R5IjoidmlyZ2lsLWp3dDt2PTEiLCJraWQiOiJrMSJ9.eyJpc3MiOiJ2aXJnaWwtYXBwIiwic3ViIjoiaWRlbnRpdHktYm9iIiwiaWF0IjoxNzAwMDAwMDAwLCJleHAiOjE3MDAwMDA5MDB9.AQID''))
       = (Threw (ThrownString
       ''eyJhbGciOiJWRURTNTEyIiwidHlwIjoiSldUIiwiY3R5IjoidmlyZ2lsLWp3dDt2PTEiLCJraWQiOiJrMSJ9.eyJpc3MiOiJ2aXJnaWwtYXBwIiwic3ViIjoiaWRlbnRpdHktYm9iIiwiaWF0IjoxNzAwMDAwMDAwLCJleHAiOjE3MDAwMDA5MDB9.AQID''),
          \<lparr> cachedJwt = None, jwtPromise = None, invocations = [''context''],
            outstanding = [], results = [], replies = [], next_handle = 0 \<rparr>)
   \<and> resolution
        (snd (getJwt (empty_world None) ''context'' 1700000000000 (Some (ThrownString
       ''eyJhbGciOiJWRURTNTEyIiwidHlwIjoiSldUIiwiY3R5IjoidmlyZ2lsLWp3dDt2PTEiLCJraWQiOiJrMSJ9.eyJpc3MiOiJ2aXJnaWwtYXBwIiwic3ViIjoiaWRlbnRpdHktYm9iIiwiaWF0IjoxNzAwMDAwMDAwLCJleHAiOjE3MDAwMDA5MDB9.AQID''))))
        (fst (getJwt (empty_world None) ''context'' 1700000000000 (Some (ThrownString
       ''eyJhbGciOiJWRURTNTEyIiwidHlwIjoiSldUIiwiY3R5IjoidmlyZ2lsLWp3dDt2PTEiLCJraWQiOiJrMSJ9.eyJpc3MiOiJ2aXJnaWwtYXBwIiwic3ViIjoiaWRlbnRpdHktYm9iIiwiaWF0IjoxNzAwMDAwMDAwLCJleHAiOjE3MDAwMDA5MDB9.AQID''))))
       = Some (Inl (ThrownString
       ''eyJhbGciOiJWRURTNTEyIiwidHlwIjoiSldUIiwiY3R5IjoidmlyZ2lsLWp3dDt2PTEiLCJraWQiOiJrMSJ9.eyJpc3MiOiJ2aXJnaWwtYXBwIiwic3ViIjoiaWRlbnRpdHktYm9iIiwiaWF0IjoxNzAwMDAwMDAwLCJleHAiOjE3MDAwMDA5MDB9.AQID''))
   \<and> cachedJwt (snd (getJwt (empty_world None) ''context'' 1700000000000 (Some (ThrownString
       ''eyJhbGciOiJWRURTNTEyIiwidHlwIjoiSldUIiwiY3R5IjoidmlyZ2lsLWp3dDt2PTEiLCJraWQiOiJrMSJ9.eyJpc3MiOiJ2aXJnaWwtYXBwIiwic3ViIjoiaWRlbnRpdHktYm9iIiwiaWF0IjoxNzAwMDAwMDAwLCJleHAiOjE3MDAwMDA5MDB9.AQID'')))) = None
   \<and> getJwt (empty_world None) ''context'' 1700000000000 None
       = (Pending 0,
          \<lparr> cachedJwt = None, jwtPromise = Some 0, invocations = [''context''],
            outstanding = [0], results = [], replies = [], next_handle = 1 \<rparr>)
   \<and> resolution
        (settle reference_platform
           (snd (getJwt (empty_world None) ''context'' 1700000000000 None)) 0
           (Rejects (ThrownString
       ''eyJhbGciOiJWRURTNTEyIiwidHlwIjoiSldUIiwiY3R5IjoidmlyZ2lsLWp3dDt2PTEiLCJraWQiOiJrMSJ9.eyJpc3MiOiJ2aXJnaWwtYXBwIiwic3ViIjoiaWRlbnRpdHktYm9iIiwiaWF0IjoxNzAwMDAwMDAwLCJleHAiOjE3MDAwMDA5MDB9.AQID'')))
        (Pending 0) = Some (Inr example_jwt)
   \<and> cachedJwt
        (settle reference_platform
           (snd (getJwt (empty_world None) ''context'' 1700000000000 None)) 0
           (Rejects (ThrownString
       ''eyJhbGciOiJWRURTNTEyIiwidHlwIjoiSldUIiwiY3R5IjoidmlyZ2lsLWp3dDt2PTEiLCJraWQiOiJrMSJ9.eyJpc3MiOiJ2aXJnaWwtYXBwIiwic3ViIjoiaWRlbnRpdHktYm9iIiwiaWF0IjoxNzAwMDAwMDAwLCJleHAiOjE3MDAwMDA5MDB9.AQID'')))
       = Some example_jwt"
proof -
  have f: "fromString reference_platform
       ''eyJhbGciOiJWRURTNTEyIiwidHlwIjoiSldUIiwiY3R5IjoidmlyZ2lsLWp3dDt2PTEiLCJraWQiOiJrMSJ9.eyJpc3MiOiJ2aXJnaWwtYXBwIiwic3ViIjoiaWRlbnRpdHktYm9iIiwiaWF0IjoxNzAwMDAwMDAwLCJleHAiOjE3MDAwMDA5MDB9.AQID''
       = Inr example_jwt"
    by code_simp
  have t: "getJwt (empty_world None) ''context'' 1700000000000 (Some (ThrownString
       ''eyJhbGciOiJWRURTNTEyIiwidHlwIjoiSldUIiwiY3R5IjoidmlyZ2lsLWp3dDt2PTEiLCJraWQiOiJrMSJ9.eyJpc3MiOiJ2aXJnaWwtYXBwIiwic3ViIjoiaWRlbnRpdHktYm9iIiwiaWF0IjoxNzAwMDAwMDAwLCJleHAiOjE3MDAwMDA5MDB9.AQID''))
       = (Threw (ThrownString
       ''eyJhbGciOiJWRURTNTEyIiwidHlwIjoiSldUIiwiY3R5IjoidmlyZ2lsLWp3dDt2PTEiLCJraWQiOiJrMSJ9.eyJpc3MiOiJ2aXJnaWwtYXBwIiwic3ViIjoiaWRlbnRpdHktYm9iIiwiaWF0IjoxNzAwMDAwMDAwLCJleHAiOjE3MDAwMDA5MDB9.AQID''),
          \<lparr> cachedJwt = None, jwtPromise = None, invocations = [''context''],
            outstanding = [], results = [], replies = [], next_handle = 0 \<rparr>)"
    by (simp add: getJwt_def start_renewal_def empty_world_def)
  have r: "getJwt (empty_world None) ''context'' 1700000000000 None
       = (Pending 0,
          \<lparr> cachedJwt = None, jwtPromise = Some 0, invocations = [''context''],
            outstanding = [0], results = [], replies = [], next_handle = 1 \<rparr>)"
    by (simp add: getJwt_def start_renewal_def empty_world_def Let_def)
  have s: "settle reference_platform
           \<lparr> cachedJwt = None, jwtPromise = Some 0, invocations = [''context''],
            outstanding = [0], results = [], replies = [], next_handle = 1 \<rparr> 0
           (Rejects (ThrownString
       ''eyJhbGciOiJWRURTNTEyIiwidHlwIjoiSldUIiwiY3R5IjoidmlyZ2lsLWp3dDt2PTEiLCJraWQiOiJrMSJ9.eyJpc3MiOiJ2aXJnaWwtYXBwIiwic3ViIjoiaWRlbnRpdHktYm9iIiwiaWF0IjoxNzAwMDAwMDAwLCJleHAiOjE3MDAwMDA5MDB9.AQID''))
       = \<lparr> cachedJwt = Some example_jwt, jwtPromise = None, invocations = [''context''],
            outstanding = [], results = [(0, Inr example_jwt)], replies = [],
            next_handle = 1 \<rparr>"
    by (simp add: settle_def on_rejected_def f)
  show ?thesis
    by (simp only: f t r s fst_conv snd_conv) (simp add: resolution_def)
qed

text \<open>
  The rejection path. When the promise of the renewal is rejected with a string that
  \<open>Jwt.fromString\<close> accepts, the parsed token is cached, the marker is cleared and the
  shared promise is fulfilled with that token, as after a successful renewal. For
  every other rejection value (a string that does not parse, or a value that is not a
  string) the marker is cleared, the cache is left as it was and the shared promise is
  rejected with the very value the renewal was rejected with. Every caller that was
  handed the shared promise, before or while the renewal ran, gets that result.
\<close>

theorem string_rejection_fallback:
  assumes "h \<in> set (outstanding st)"
  shows "(\<forall>s jwt. fromString p s = Inr jwt \<longrightarrow>
           settle p st h (Rejects (ThrownString s)) =
             st \<lparr> cachedJwt := Some jwt, jwtPromise := None,
                  outstanding := remove1 h (outstanding st),
                  results := (h, Inr jwt) # results st \<rparr>
         \<and> resolution (settle p st h (Rejects (ThrownString s))) (Pending h) = Some (Inr jwt))
     \<and> (\<forall>err. (\<forall>s. err = ThrownString s \<longrightarrow> (\<exists>e. fromString p s = Inl e)) \<longrightarrow>
           settle p st h (Rejects err) =
             st \<lparr> jwtPromise := None,
                  outstanding := remove1 h (outstanding st),
                  results := (h, Inl err) # results st \<rparr>
         \<and> resolution (settle p st h (Rejects err)) (Pending h) = Some (Inl err))"
proof -
  have 1: "settle p st h (Rejects (ThrownString s)) =
             st \<lparr> cachedJwt := Some jwt, jwtPromise := None,
                  outstanding := remove1 h (outstanding st),
                  results := (h, Inr jwt) # results st \<rparr>"
    if "fromString p s = Inr jwt" for s jwt
    using assms that by (simp add: settle_def on_rejected_def)
  have 2: "settle p st h (Rejects err) =
             st \<lparr> jwtPromise := None,
                  outstanding := remove1 h (outstanding st),
                  results := (h, Inl err) # results st \<rparr>"
    if "\<forall>s. err = ThrownString s \<longrightarrow> (\<exists>e. fromString p s = Inl e)" for err
    using assms that by (cases err) (auto simp: settle_def on_rejected_def)
  show ?thesis
    by (auto simp: 1 2 resolution_def)
qed

theorem string_rejection_fallback_witness:
  "0 \<in> set (outstanding in_flight_world)
   \<and> fromString reference_platform
       ''eyJhbGciOiJWRURTNTEyIiwidHlwIjoiSldUIiwiY3R5IjoidmlyZ2lsLWp3dDt2PTEiLCJraWQiOiJrMSJ9.eyJpc3MiOiJ2aXJnaWwtYXBwIiwic3ViIjoiaWRlbnRpdHktYm9iIiwiaWF0IjoxNzAwMDAwMDAwLCJleHAiOjE3MDAwMDA5MDB9.AQID''
       = Inr example_jwt
   \<and> resolution (settle reference_platform in_flight_world 0 (Rejects (ThrownString
       ''eyJhbGciOiJWRURTNTEyIiwidHlwIjoiSldUIiwiY3R5IjoidmlyZ2lsLWp3dDt2PTEiLCJraWQiOiJrMSJ9.eyJpc3MiOiJ2aXJnaWwtYXBwIiwic3ViIjoiaWRlbnRpdHktYm9iIiwiaWF0IjoxNzAwMDAwMDAwLCJleHAiOjE3MDAwMDA5MDB9.AQID'')))
       (Pending 0) = Some (Inr example_jwt)
   \<and> cachedJwt (settle reference_platform in_flight_world 0 (Rejects (ThrownString
       ''eyJhbGciOiJWRURTNTEyIiwidHlwIjoiSldUIiwiY3R5IjoidmlyZ2lsLWp3dDt2PTEiLCJraWQiOiJrMSJ9.eyJpc3MiOiJ2aXJnaWwtYXBwIiwic3ViIjoiaWRlbnRpdHktYm9iIiwiaWF0IjoxNzAwMDAwMDAwLCJleHAiOjE3MDAwMDA5MDB9.AQID'')))
       = Some example_jwt
   \<and> fromString reference_platform ''try again later'' = Inl WrongJwtFormat
   \<and> resolution (settle reference_platform in_flight_world 0
        (Rejects (ThrownString ''try again later''))) (Pending 0)
       = Some (Inl (ThrownString ''try again later''))
   \<and> resolution (settle reference_platform in_flight_world 0 (Rejects (ThrownOther 7)))
        (Pending 0) = Some (Inl (ThrownOther 7))
   \<and> cachedJwt (settle reference_platform in_flight_world 0 (Rejects (ThrownOther 7))) = None
   \<and> jwtPromise (settle reference_platform in_flight_world 0 (Rejects (ThrownOther 7))) = None"
proof -
  have w: "in_flight_world =
     \<lparr> cachedJwt = None, jwtPromise = Some 0, invocations = [''first''], outstanding = [0],
       results = [], replies = [Pending 0], next_handle = 1 \<rparr>"
    by (simp add: in_flight_world_def run_def step_def getJwt_def start_renewal_def
                  empty_world_def Let_def)
  have o: "0 \<in> set (outstanding in_flight_world)"
    by (simp add: w)
  have f: "fromString reference_platform
       ''eyJhbGciOiJWRURTNTEyIiwidHlwIjoiSldUIiwiY3R5IjoidmlyZ2lsLWp3dDt2PTEiLCJraWQiOiJrMSJ9.eyJpc3MiOiJ2aXJnaWwtYXBwIiwic3ViIjoiaWRlbnRpdHktYm9iIiwiaWF0IjoxNzAwMDAwMDAwLCJleHAiOjE3MDAwMDA5MDB9.AQID''
       = Inr example_jwt"
    by code_simp
  have g: "fromString reference_platform ''try again later'' = Inl WrongJwtFormat"
    by (simp add: fromString_def)
  note t = string_rejection_fallback [OF o, of reference_platform]
  from t f have 1: "settle reference_platform in_flight_world 0 (Rejects (ThrownString
       ''eyJhbGciOiJWRURTNTEyIiwidHlwIjoiSldUIiwiY3R5IjoidmlyZ2lsLWp3dDt2PTEiLCJraWQiOiJrMSJ9.eyJpc3MiOiJ2aXJnaWwtYXBwIiwic3ViIjoiaWRlbnRpdHktYm9iIiwiaWF0IjoxNzAwMDAwMDAwLCJleHAiOjE3MDAwMDA5MDB9.AQID'')) =
       in_flight_world \<lparr> cachedJwt := Some example_jwt, jwtPromise := None,
                  outstanding := remove1 0 (outstanding in_flight_world),
                  results := (0, Inr example_jwt) # results in_flight_world \<rparr>"
    by blast
  from t f have 2: "resolution (settle reference_platform in_flight_world 0
       (Rejects (ThrownString
       ''eyJhbGciOiJWRURTNTEyIiwidHlwIjoiSldUIiwiY3R5IjoidmlyZ2lsLWp3dDt2PTEiLCJraWQiOiJrMSJ9.eyJpc3MiOiJ2aXJnaWwtYXBwIiwic3ViIjoiaWRlbnRpdHktYm9iIiwiaWF0IjoxNzAwMDAwMDAwLCJleHAiOjE3MDAwMDA5MDB9.AQID'')))
       (Pending 0) = Some (Inr example_jwt)"
    by blast
  from t g have 3: "resolution (settle reference_platform in_flight_world 0
        (Rejects (ThrownString ''try again later''))) (Pending 0)
       = Some (Inl (ThrownString ''try again later''))"
    by blast
  from t have 4: "settle reference_platform in_flight_world 0 (Rejects (ThrownOther 7)) =
             in_flight_world \<lparr> jwtPromise := None,
                  outstanding := remove1 0 (outstanding in_flight_world),
                  results := (0, Inl (ThrownOther 7)) # results in_flight_world \<rparr>"
    by blast
  from t have 5: "resolution (settle reference_platform in_flight_world 0
        (Rejects (ThrownOther 7))) (Pending 0) = Some (Inl (ThrownOther 7))"
    by blast
  have 6: "cachedJwt (settle reference_platform in_flight_world 0 (Rejects (ThrownString
       ''eyJhbGciOiJWRURTNTEyIiwidHlwIjoiSldUIiwiY3R5IjoidmlyZ2lsLWp3dDt2PTEiLCJraWQiOiJrMSJ9.eyJpc3MiOiJ2aXJnaWwtYXBwIiwic3ViIjoiaWRlbnRpdHktYm9iIiwiaWF0IjoxNzAwMDAwMDAwLCJleHAiOjE3MDAwMDA5MDB9.AQID'')))
       = Some example_jwt"
    by (simp only: 1) simp
  have 7: "cachedJwt (settle reference_platform in_flight_world 0 (Rejects (ThrownOther 7)))
       = None"
    by (simp only: 4) (simp add: w)
  have 8: "jwtPromise (settle reference_platform in_flight_world 0 (Rejects (ThrownOther 7)))
       = None"
    by (simp only: 4) simp
  from o f 2 6 g 3 5 7 8 show ?thesis by blast
qed

text \<open>
  C4 as stated fails: with an empty cache, a call that arrives while a renewal is in
  flight triggers no renewal. \<open>renewJwtFn\<close> has been called once, for the first
  caller, and the second call returns the pending promise and leaves the state as it
  is.
\<close>

theorem get_token_joins_renewal:
  "cachedJwt in_flight_world = None
   \<and> invocations in_flight_world = [''first'']
   \<and> getJwt in_flight_world ''second'' 1700000000000 None = (Pending 0, in_flight_world)
   \<and> invocations (snd (getJwt in_flight_world ''second'' 1700000000000 None)) = [''first'']"
  by (simp add: in_flight_world_def run_def step_def getJwt_def start_renewal_def
                empty_world_def Let_def)

text \<open>
  C4, amended. The margin is five seconds. If a cached token exists and is not expired
  at \<open>now\<close> plus the margin, \<open>getJwt\<close> returns it at once and changes nothing, so
  \<open>renewJwtFn\<close> is not called. Otherwise, if a renewal is in flight, the call returns
  its pending promise and changes nothing; if none is in flight, \<open>renewJwtFn\<close> is
  called, the marker is set and the new promise is returned, and when the renewal is
  fulfilled with a token, or with a string that \<open>Jwt.fromString\<close> accepts, that token
  becomes the cached token and the result of the promise.
\<close>

theorem cache_freshness_decision:
  "TOKEN_EXPIRATION_MARGIN = 5
   \<and> (stale st now \<longleftrightarrow>
        cachedJwt st = None
        \<or> (\<exists>jwt. cachedJwt st = Some jwt \<and> isExpired jwt (addSeconds now 5)))
   \<and> (\<forall>jwt. cachedJwt st = Some jwt \<and> \<not> isExpired jwt (addSeconds now 5)
         \<longrightarrow> getJwt st c now thrown = (Resolved jwt, st))
   \<and> (\<forall>h. stale st now \<and> jwtPromise st = Some h
         \<longrightarrow> getJwt st c now thrown = (Pending h, st))
   \<and> (stale st now \<and> jwtPromise st = None
         \<longrightarrow> (let h = next_handle st;
                  st' = st \<lparr> jwtPromise := Some h, invocations := c # invocations st,
                             outstanding := h # outstanding st, next_handle := Suc h \<rparr>
              in getJwt st c now None = (Pending h, st')
               \<and> (\<forall>jwt. cachedJwt (settle p st' h (Fulfils (TokenJwt jwt))) = Some jwt
                     \<and> resolution (settle p st' h (Fulfils (TokenJwt jwt))) (Pending h)
                         = Some (Inr jwt))
               \<and> (\<forall>s jwt. fromString p s = Inr jwt \<longrightarrow>
                       cachedJwt (settle p st' h (Fulfils (TokenString s))) = Some jwt
                     \<and> resolution (settle p st' h (Fulfils (TokenString s))) (Pending h)
                         = Some (Inr jwt))))"
proof -
  have 1: "TOKEN_EXPIRATION_MARGIN = 5" by (simp add: TOKEN_EXPIRATION_MARGIN_def)
  have 2: "stale st now \<longleftrightarrow>
        cachedJwt st = None
        \<or> (\<exists>jwt. cachedJwt st = Some jwt \<and> isExpired jwt (addSeconds now 5))"
    by (auto simp: stale_def 1 split: option.splits)
  have 3: "\<forall>jwt. cachedJwt st = Some jwt \<and> \<not> isExpired jwt (addSeconds now 5)
         \<longrightarrow> getJwt st c now thrown = (Resolved jwt, st)"
    by (auto simp: getJwt_fresh 1)
  have 4: "\<forall>h. stale st now \<and> jwtPromise st = Some h
         \<longrightarrow> getJwt st c now thrown = (Pending h, st)"
    by (auto simp: getJwt_in_flight)
  have 5: "stale st now \<and> jwtPromise st = None
         \<longrightarrow> (let h = next_handle st;
                  st' = st \<lparr> jwtPromise := Some h, invocations := c # invocations st,
                             outstanding := h # outstanding st, next_handle := Suc h \<rparr>
              in getJwt st c now None = (Pending h, st')
               \<and> (\<forall>jwt. cachedJwt (settle p st' h (Fulfils (TokenJwt jwt))) = Some jwt
                     \<and> resolution (settle p st' h (Fulfils (TokenJwt jwt))) (Pending h)
                         = Some (Inr jwt))
               \<and> (\<forall>s jwt. fromString p s = Inr jwt \<longrightarrow>
                       cachedJwt (settle p st' h (Fulfils (TokenString s))) = Some jwt
                     \<and> resolution (settle p st' h (Fulfils (TokenString s))) (Pending h)
                         = Some (Inr jwt)))"
    by (auto simp: Let_def getJwt_renew start_renewal_def settle_def on_fulfilled_def
                   resolution_def)
  from 1 2 3 4 5 show ?thesis by blast
qed


theorem cache_freshness_decision_witness:
  "\<not> isExpired example_jwt (addSeconds 1700000000000 5)
   \<and> getJwt (empty_world (Some example_jwt) :: string world) ''context'' 1700000000000 None
       = (Resolved example_jwt, empty_world (Some example_jwt))
   \<and> isExpired example_jwt (addSeconds 1700000896000 5)
   \<and> getJwt (empty_world (Some example_jwt) :: string world) ''context'' 1700000896000 None
       = (Pending 0,
          \<lparr> cachedJwt = Some example_jwt, jwtPromise = Some 0, invocations = [''context''],
            outstanding = [0], results = [], replies = [], next_handle = 1 \<rparr>)
   \<and> fromString reference_platform
       ''eyJhbGciOiJWRURTNTEyIiwidHlwIjoiSldUIiwiY3R5IjoidmlyZ2lsLWp3dDt2PTEiLCJraWQiOiJrMSJ9.eyJpc3MiOiJ2aXJnaWwtYXBwIiwic3ViIjoiaWRlbnRpdHktYm9iIiwiaWF0IjoxNzAwMDAwMDAwLCJleHAiOjE3MDAwMDA5MDB9.AQID''
       = Inr example_jwt
   \<and> cachedJwt (settle reference_platform
         \<lparr> cachedJwt = None, jwtPromise = Some 0, invocations = [''context''],
           outstanding = [0], results = [], replies = [], next_handle = 1 \<rparr>
         0 (Fulfils (TokenString
       ''eyJhbGciOiJWRURTNTEyIiwidHlwIjoiSldUIiwiY3R5IjoidmlyZ2lsLWp3dDt2PTEiLCJraWQiOiJrMSJ9.eyJpc3MiOiJ2aXJnaWwtYXBwIiwic3ViIjoiaWRlbnRpdHktYm9iIiwiaWF0IjoxNzAwMDAwMDAwLCJleHAiOjE3MDAwMDA5MDB9.AQID'')))
       = Some example_jwt
   \<and> getJwt in_flight_world ''second'' 1700000000000 None = (Pending 0, in_flight_world)"
proof -
  have x: "exp (body example_jwt) = 1700000900"
    by (simp add: example_jwt_def body_new_Jwt example_body_def)
  have a: "\<not> isExpired example_jwt (addSeconds 1700000000000 5)"
    by (simp add: isExpired_def x addSeconds_def getUnixTimestamp_def)
  have b: "isExpired example_jwt (addSeconds 1700000896000 5)"
    by (simp add: isExpired_def x addSeconds_def getUnixTimestamp_def)
  have f: "fromString reference_platform
       ''eyJhbGciOiJWRURTNTEyIiwidHlwIjoiSldUIiwiY3R5IjoidmlyZ2lsLWp3dDt2PTEiLCJraWQiOiJrMSJ9.eyJpc3MiOiJ2aXJnaWwtYXBwIiwic3ViIjoiaWRlbnRpdHktYm9iIiwiaWF0IjoxNzAwMDAwMDAwLCJleHAiOjE3MDAwMDA5MDB9.AQID''
       = Inr example_jwt"
    by code_simp
  have c: "cachedJwt (empty_world (Some example_jwt) :: string world) = Some example_jwt"
    by (simp add: empty_world_def)
  have 1: "getJwt (empty_world (Some example_jwt) :: string world) ''context'' 1700000000000 None
       = (Resolved example_jwt, empty_world (Some example_jwt))"
    using cache_freshness_decision
      [of "empty_world (Some example_jwt) :: string world" 1700000000000 "''context''" None]
      a c by blast
  have sb: "stale (empty_world (Some example_jwt) :: string world) 1700000896000"
    using cache_freshness_decision
      [of "empty_world (Some example_jwt) :: string world" 1700000896000]
      b c by blast
  have n: "jwtPromise (empty_world (Some example_jwt) :: string world) = None"
    by (simp add: empty_world_def)
  have 2: "getJwt (empty_world (Some example_jwt) :: string world) ''context'' 1700000896000 None
       = (Pending 0,
          \<lparr> cachedJwt = Some example_jwt, jwtPromise = Some 0, invocations = [''context''],
            outstanding = [0], results = [], replies = [], next_handle = 1 \<rparr>)"
    using cache_freshness_decision
      [of "empty_world (Some example_jwt) :: string world" 1700000896000 "''context''"]
      sb n
    by (simp add: Let_def empty_world_def)
  have se: "stale (empty_world None :: string world) 0 \<and>
            jwtPromise (empty_world None :: string world) = None"
    by (simp add: stale_def empty_world_def)
  have 3: "cachedJwt (settle reference_platform
         \<lparr> cachedJwt = None, jwtPromise = Some 0, invocations = [''context''],
           outstanding = [0], results = [], replies = [], next_handle = 1 \<rparr>
         0 (Fulfils (TokenString
       ''eyJhbGciOiJWRURTNTEyIiwidHlwIjoiSldUIiwiY3R5IjoidmlyZ2lsLWp3dDt2PTEiLCJraWQiOiJrMSJ9.eyJpc3MiOiJ2aXJnaWwtYXBwIiwic3ViIjoiaWRlbnRpdHktYm9iIiwiaWF0IjoxNzAwMDAwMDAwLCJleHAiOjE3MDAwMDA5MDB9.AQID'')))
       = Some example_jwt"
    using cache_freshness_decision
      [of "empty_world None :: string world" 0 "''context''" _ reference_platform]
      se f
    by (simp add: Let_def empty_world_def)
  have w: "in_flight_world =
     \<lparr> cachedJwt = None, jwtPromise = Some 0, invocations = [''first''], outstanding = [0],
       results = [], replies = [Pending 0], next_handle = 1 \<rparr>"
    by (simp add: in_flight_world_def run_def step_def getJwt_def start_renewal_def
                  empty_world_def Let_def)
  have si: "stale in_flight_world 1700000000000 \<and> jwtPromise in_flight_world = Some 0"
    by (simp add: w stale_def)
  have 4: "getJwt in_flight_world ''second'' 1700000000000 None = (Pending 0, in_flight_world)"
    using cache_freshness_decision [of in_flight_world 1700000000000 "''second''" None] si
    by blast
  from a 1 b 2 f 3 4 show ?thesis by blast
qed

section \<open>Properties of KeyEntryStorage\<close>

lemma map_of_set_prop: "map_of (set_prop kvs k v) = (map_of kvs)(k \<mapsto> v)"
  by (induction kvs) (auto simp: fun_eq_iff)

lemma lookup_set_prop: "lookup (set_prop kvs k v) k' = (if k' = k then v else lookup kvs k')"
  by (simp add: lookup_def map_of_set_prop)

lemma serialize_saved:
  "serializeKeyEntry P (JObject
      [(''name'', JString name), (''value'', JBuffer b), (''meta'', meta_value meta),
       (''creationDate'', JDate now1), (''modificationDate'', JDate now2)])
   = Some (utf8_encode (JSON_stringify P (saved_entry P name b meta now1 now2)))"
  by (simp add: serializeKeyEntry_def lookup_def VALUE_KEY_def saved_entry_def)

lemma save_bytes:
  assumes "name \<noteq> []"
  shows "save P ad st name (DataBytes b) meta now1 now2 =
     (case adapter_store ad st name
             (utf8_encode (JSON_stringify P (saved_entry P name b meta now1 now2))) of
        Inr st' \<Rightarrow> Inr (JObject
            [(''name'', JString name), (''value'', JBuffer b), (''meta'', meta_value meta),
             (''creationDate'', JDate now1), (''modificationDate'', JDate now2)], st')
      | Inl error \<Rightarrow>
          if error_name error = ''StorageEntryAlreadyExistsError''
          then Inl (KeyEntryAlreadyExistsError name)
          else Inl (AdapterError error))"
  using assms
  by (simp add: save_def validateNameProperty_def validateValueProperty_def truthy_data_def
                dataToUint8Array_def serialize_saved Let_def)

lemma revive_saved:
  assumes "Date_new P (JString iso1) = Some now1"
    and "Date_new P (JString iso2) = Some now2"
    and "Buffer_from_base64 P (JString b64) = Some b"
  shows "internalize (reviver P) []
     (JObject [(''name'', JString name), (''creationDate'', JString iso1),
               (''modificationDate'', JString iso2), (''value'', JString b64)])
   = Some (JObject [(''name'', JString name), (''creationDate'', JDate now1),
               (''modificationDate'', JDate now2), (''value'', JBuffer b)])"
  using assms
  by (simp add: reviver_def VALUE_KEY_def CREATION_DATE_KEY_def MODIFICATION_DATE_KEY_def)

lemma lookup_merged:
  "lookup (Object_assign entry [(''value'', v), (''meta'', m), (''modificationDate'', d)]) k =
     (if k = ''modificationDate'' then d
      else if k = ''meta'' then m
      else if k = ''value'' then v
      else lookup entry k)"
  by (simp add: lookup_set_prop)

text \<open>
  C6 fails on the dates. \<open>save\<close> evaluates \<open>new Date()\<close> twice, once for
  \<open>creationDate\<close> and once for \<open>modificationDate\<close>, and does not copy the one into
  the other. Saving the bytes 1, 2, 3 under the name \<open>k\<close> while the clock moves from
  one millisecond to the next between the two readings stores, and \<open>load\<close> returns,
  an entry whose \<open>creationDate\<close> is not its \<open>modificationDate\<close>; the value comes back
  as the saved bytes.
\<close>

theorem save_dates_differ:
  \<open>save reference_storage_platform memory_adapter [] ''k'' (DataBytes [1, 2, 3]) None
      1700000000000 1700000000001 =
     Inr (JObject [(''name'', JString ''k''), (''value'', JBuffer [1, 2, 3]),
                   (''meta'', JUndefined), (''creationDate'', JDate 1700000000000),
                   (''modificationDate'', JDate 1700000000001)],
          [(''k'', utf8_encode
             ''{"name":"k","creationDate":"2023-11-14T22:13:20.000Z","modificationDate":"2023-11-14T22:13:20.001Z","value":"AQID"}'')])
   \<and> load reference_storage_platform memory_adapter
          [(''k'', utf8_encode
             ''{"name":"k","creationDate":"2023-11-14T22:13:20.000Z","modificationDate":"2023-11-14T22:13:20.001Z","value":"AQID"}'')]
          ''k'' =
     Inr (Some (JObject [(''name'', JString ''k''), (''creationDate'', JDate 1700000000000),
                         (''modificationDate'', JDate 1700000000001),
                         (''value'', JBuffer [1, 2, 3])]))
   \<and> JDate 1700000000000 \<noteq> JDate 1700000000001\<close>
  by code_simp

text \<open>
  What \<open>save\<close> followed by \<open>load\<close> returns, in terms of the two clock readings of
  \<open>save\<close>. For a non-empty name and a value given as bytes, the loaded entry has the
  saved bytes as its \<open>value\<close> (bytes, not base64 text), the first reading as its
  \<open>creationDate\<close>, the second as its \<open>modificationDate\<close>, and an undefined \<open>meta\<close> when
  none was given; the two dates agree only when the two readings do. The adapter is
  taken to store the record and to load what it stored, and the platform to read back
  what it wrote: the JSON text parses to the object with the two dates as strings
  that \<open>new Date\<close> reads back and the base64 text that \<open>NodeBuffer.from\<close> decodes to
  the bytes.
\<close>

theorem save_load_round_trip:
  assumes "name \<noteq> []"
    and "adapter_store ad st name
           (utf8_encode (JSON_stringify P (saved_entry P name b None now1 now2))) = Inr st'"
    and "adapter_load ad st' name =
           Inr (Some (utf8_encode (JSON_stringify P (saved_entry P name b None now1 now2))))"
    and "JSON_parse P (JSON_stringify P (saved_entry P name b None now1 now2)) =
           Some (JObject [(''name'', JString name), (''creationDate'', JString iso1),
                          (''modificationDate'', JString iso2),
                          (''value'', JString (base64_encode P b))])"
    and "Date_new P (JString iso1) = Some now1"
    and "Date_new P (JString iso2) = Some now2"
    and "Buffer_from_base64 P (JString (base64_encode P b)) = Some b"
  shows "save P ad st name (DataBytes b) None now1 now2 =
           Inr (JObject [(''name'', JString name), (''value'', JBuffer b), (''meta'', JUndefined),
                         (''creationDate'', JDate now1), (''modificationDate'', JDate now2)],
                st')
     \<and> (\<exists>loaded. load P ad st' name = Inr (Some (JObject loaded))
         \<and> lookup loaded ''name'' = JString name
         \<and> lookup loaded ''value'' = JBuffer b
         \<and> lookup loaded ''creationDate'' = JDate now1
         \<and> lookup loaded ''modificationDate'' = JDate now2
         \<and> lookup loaded ''meta'' = JUndefined
         \<and> (lookup loaded ''creationDate'' = lookup loaded ''modificationDate''
              \<longleftrightarrow> now1 = now2))"
proof -
  let ?keyEntry = "[(''name'', JString name), (''value'', JBuffer b), (''meta'', meta_value None),
             (''creationDate'', JDate now1), (''modificationDate'', JDate now2)]"
  let ?loaded = "[(''name'', JString name), (''creationDate'', JDate now1),
               (''modificationDate'', JDate now2), (''value'', JBuffer b)]"
  have s: "save P ad st name (DataBytes b) None now1 now2 =
           Inr (JObject [(''name'', JString name), (''value'', JBuffer b), (''meta'', JUndefined),
                         (''creationDate'', JDate now1), (''modificationDate'', JDate now2)],
                st')"
    using assms(1,2) by (simp add: save_bytes meta_value_def)
  have d: "deserializeKeyEntry P
             (utf8_encode (JSON_stringify P (saved_entry P name b None now1 now2)))
           = Inr (JObject ?loaded)"
    using assms(4) revive_saved [OF assms(5,6,7)]
    by (simp add: deserializeKeyEntry_def utf8_decode_encode)
  have l: "load P ad st' name = Inr (Some (JObject ?loaded))"
    using assms(1,3) d by (simp add: load_def validateName_def)
  have "lookup ?loaded ''name'' = JString name
     \<and> lookup ?loaded ''value'' = JBuffer b
     \<and> lookup ?loaded ''creationDate'' = JDate now1
     \<and> lookup ?loaded ''modificationDate'' = JDate now2
     \<and> lookup ?loaded ''meta'' = JUndefined
     \<and> (lookup ?loaded ''creationDate'' = lookup ?loaded ''modificationDate''
          \<longleftrightarrow> now1 = now2)"
    by (simp add: lookup_def)
  with s l show ?thesis by blast
qed


theorem save_load_round_trip_witness:
  \<open>save reference_storage_platform memory_adapter [] ''k'' (DataBytes [1, 2, 3]) None
      1700000000000 1700000000000 =
     Inr (JObject [(''name'', JString ''k''), (''value'', JBuffer [1, 2, 3]),
                   (''meta'', JUndefined), (''creationDate'', JDate 1700000000000),
                   (''modificationDate'', JDate 1700000000000)],
          [(''k'', utf8_encode
             ''{"name":"k","creationDate":"2023-11-14T22:13:20.000Z","modificationDate":"2023-11-14T22:13:20.000Z","value":"AQID"}'')])
   \<and> (\<exists>loaded.
        load reference_storage_platform memory_adapter
          [(''k'', utf8_encode
             ''{"name":"k","creationDate":"2023-11-14T22:13:20.000Z","modificationDate":"2023-11-14T22:13:20.000Z","value":"AQID"}'')]
          ''k'' = Inr (Some (JObject loaded))
      \<and> lookup loaded ''value'' = JBuffer [1, 2, 3]
      \<and> lookup loaded ''creationDate'' = lookup loaded ''modificationDate''
      \<and> lookup loaded ''meta'' = JUndefined)\<close>
proof -
  have j: \<open>JSON_stringify reference_storage_platform
             (saved_entry reference_storage_platform ''k'' [1, 2, 3] None
                1700000000000 1700000000000) =
           ''{"name":"k","creationDate":"2023-11-14T22:13:20.000Z","modificationDate":"2023-11-14T22:13:20.000Z","value":"AQID"}''\<close>
    by code_simp
  have 1: "''k'' \<noteq> []" by simp
  have 2: "adapter_store memory_adapter [] ''k''
             (utf8_encode (JSON_stringify reference_storage_platform
                (saved_entry reference_storage_platform ''k'' [1, 2, 3] None
                   1700000000000 1700000000000)))
           = Inr [(''k'', utf8_encode (JSON_stringify reference_storage_platform
                (saved_entry reference_storage_platform ''k'' [1, 2, 3] None
                   1700000000000 1700000000000)))]"
    by (simp add: memory_adapter_def)
  have 3: "adapter_load memory_adapter
             [(''k'', utf8_encode (JSON_stringify reference_storage_platform
                (saved_entry reference_storage_platform ''k'' [1, 2, 3] None
                   1700000000000 1700000000000)))] ''k''
           = Inr (Some (utf8_encode (JSON_stringify reference_storage_platform
                (saved_entry reference_storage_platform ''k'' [1, 2, 3] None
                   1700000000000 1700000000000))))"
    by (simp add: memory_adapter_def)
  have 4: "JSON_parse reference_storage_platform
             (JSON_stringify reference_storage_platform
                (saved_entry reference_storage_platform ''k'' [1, 2, 3] None
                   1700000000000 1700000000000)) =
           Some (JObject [(''name'', JString ''k''),
                          (''creationDate'', JString ''2023-11-14T22:13:20.000Z''),
                          (''modificationDate'', JString ''2023-11-14T22:13:20.000Z''),
                          (''value'', JString (base64_encode reference_storage_platform [1, 2, 3]))])"
    by code_simp
  have 5: "Date_new reference_storage_platform (JString ''2023-11-14T22:13:20.000Z'')
             = Some 1700000000000"
    by code_simp
  have 7: "Buffer_from_base64 reference_storage_platform
             (JString (base64_encode reference_storage_platform [1, 2, 3])) = Some [1, 2, 3]"
    by code_simp
  note t = save_load_round_trip [OF 1 2 3 4 5 5 7]
  show ?thesis using t unfolding j by blast
qed

text \<open>
  C7. \<open>update\<close> fails with the \<open>TypeError\<close> of the validation when neither a value nor a
  meta is supplied (a value counts as supplied when it is truthy, as the code tests
  it). With a name and something supplied, it fails with \<open>KeyEntryDoesNotExistError\<close>
  when the adapter has no record of that name. Otherwise, for a stored record that
  deserializes to an entry, the merged entry has the new value if one was supplied and
  the old value if not, the new meta if one was supplied and the old meta if not, the
  old \<open>creationDate\<close> and \<open>name\<close>, and \<open>now\<close> as \<open>modificationDate\<close>; \<open>update\<close> hands
  its serialized form to the adapter's \<open>update\<close> and returns it.
\<close>

theorem update_contract:
  "(\<not> truthy_data val \<and> meta = None
      \<longrightarrow> (\<exists>message. update P ad st name val meta now = Inl (TypeError message)))
   \<and> (name \<noteq> [] \<and> (truthy_data val \<or> meta \<noteq> None) \<and> adapter_load ad st name = Inr None
      \<longrightarrow> update P ad st name val meta now = Inl (KeyEntryDoesNotExistError name))
   \<and> (name \<noteq> [] \<and> (truthy_data val \<or> meta \<noteq> None)
       \<and> adapter_load ad st name = Inr (Some d)
       \<and> deserializeKeyEntry P d = Inr (JObject entry)
       \<and> (truthy_data val \<longrightarrow> Option.bind val (dataToUint8Array P) = Some b)
      \<longrightarrow> (let merged = Object_assign entry
                  [(''value'', if truthy_data val then JBuffer b else lookup entry ''value''),
                   (''meta'', if meta \<noteq> None then meta_value meta else lookup entry ''meta''),
                   (''modificationDate'', JDate now)]
          in lookup merged ''value'' =
               (if truthy_data val then JBuffer b else lookup entry ''value'')
           \<and> lookup merged ''meta'' =
               (if meta \<noteq> None then meta_value meta else lookup entry ''meta'')
           \<and> lookup merged ''creationDate'' = lookup entry ''creationDate''
           \<and> lookup merged ''name'' = lookup entry ''name''
           \<and> lookup merged ''modificationDate'' = JDate now
           \<and> (\<forall>serialized st'.
                 serializeKeyEntry P (JObject merged) = Some serialized
                 \<and> adapter_update ad st name serialized = Inr st'
                \<longrightarrow> update P ad st name val meta now = Inr (JObject merged, st'))))"
proof -
  have 1: "\<not> truthy_data val \<and> meta = None
      \<longrightarrow> (\<exists>message. update P ad st name val meta now = Inl (TypeError message))"
    by (simp add: update_def validateNameProperty_def)
  have 2: "name \<noteq> [] \<and> (truthy_data val \<or> meta \<noteq> None) \<and> adapter_load ad st name = Inr None
      \<longrightarrow> update P ad st name val meta now = Inl (KeyEntryDoesNotExistError name)"
    by (auto simp: update_def validateNameProperty_def)
  have 3: "name \<noteq> [] \<and> (truthy_data val \<or> meta \<noteq> None)
       \<and> adapter_load ad st name = Inr (Some d)
       \<and> deserializeKeyEntry P d = Inr (JObject entry)
       \<and> (truthy_data val \<longrightarrow> Option.bind val (dataToUint8Array P) = Some b)
      \<longrightarrow> (let merged = Object_assign entry
                  [(''value'', if truthy_data val then JBuffer b else lookup entry ''value''),
                   (''meta'', if meta \<noteq> None then meta_value meta else lookup entry ''meta''),
                   (''modificationDate'', JDate now)]
          in lookup merged ''value'' =
               (if truthy_data val then JBuffer b else lookup entry ''value'')
           \<and> lookup merged ''meta'' =
               (if meta \<noteq> None then meta_value meta else lookup entry ''meta'')
           \<and> lookup merged ''creationDate'' = lookup entry ''creationDate''
           \<and> lookup merged ''name'' = lookup entry ''name''
           \<and> lookup merged ''modificationDate'' = JDate now
           \<and> (\<forall>serialized st'.
                 serializeKeyEntry P (JObject merged) = Some serialized
                 \<and> adapter_update ad st name serialized = Inr st'
                \<longrightarrow> update P ad st name val meta now = Inr (JObject merged, st')))"
  proof
    assume a: "name \<noteq> [] \<and> (truthy_data val \<or> meta \<noteq> None)
       \<and> adapter_load ad st name = Inr (Some d)
       \<and> deserializeKeyEntry P d = Inr (JObject entry)
       \<and> (truthy_data val \<longrightarrow> Option.bind val (dataToUint8Array P) = Some b)"
    define merged where "merged = Object_assign entry
                  [(''value'', if truthy_data val then JBuffer b else lookup entry ''value''),
                   (''meta'', if meta \<noteq> None then meta_value meta else lookup entry ''meta''),
                   (''modificationDate'', JDate now)]"
    have l: "lookup merged ''value'' =
               (if truthy_data val then JBuffer b else lookup entry ''value'')
           \<and> lookup merged ''meta'' =
               (if meta \<noteq> None then meta_value meta else lookup entry ''meta'')
           \<and> lookup merged ''creationDate'' = lookup entry ''creationDate''
           \<and> lookup merged ''name'' = lookup entry ''name''
           \<and> lookup merged ''modificationDate'' = JDate now"
      unfolding merged_def by (simp only: lookup_merged) simp
    have u: "update P ad st name val meta now = Inr (JObject merged, st')"
      if "serializeKeyEntry P (JObject merged) = Some serialized"
        and "adapter_update ad st name serialized = Inr st'" for serialized st'
    proof (cases "truthy_data val")
      case True
      with a that show ?thesis
        by (simp add: update_def validateNameProperty_def merged_def Let_def)
    next
      case False
      with a that show ?thesis
        by (simp add: update_def validateNameProperty_def merged_def Let_def)
    qed
    show "let merged = Object_assign entry
                  [(''value'', if truthy_data val then JBuffer b else lookup entry ''value''),
                   (''meta'', if meta \<noteq> None then meta_value meta else lookup entry ''meta''),
                   (''modificationDate'', JDate now)]
          in lookup merged ''value'' =
               (if truthy_data val then JBuffer b else lookup entry ''value'')
           \<and> lookup merged ''meta'' =
               (if meta \<noteq> None then meta_value meta else lookup entry ''meta'')
           \<and> lookup merged ''creationDate'' = lookup entry ''creationDate''
           \<and> lookup merged ''name'' = lookup entry ''name''
           \<and> lookup merged ''modificationDate'' = JDate now
           \<and> (\<forall>serialized st'.
                 serializeKeyEntry P (JObject merged) = Some serialized
                 \<and> adapter_update ad st name serialized = Inr st'
                \<longrightarrow> update P ad st name val meta now = Inr (JObject merged, st'))"
      unfolding Let_def merged_def [symmetric] using l u by blast
  qed
  from 1 2 3 show ?thesis by blast
qed


theorem update_contract_witness:
  \<open>(\<exists>message. update reference_storage_platform memory_adapter stored_example ''k''
        None None 1700000005000 = Inl (TypeError message))
   \<and> update reference_storage_platform memory_adapter stored_example ''missing''
        None (Some [(''a'', ''b'')]) 1700000005000 = Inl (KeyEntryDoesNotExistError ''missing'')
   \<and> update reference_storage_platform memory_adapter stored_example ''k''
        None (Some [(''a'', ''b'')]) 1700000005000 =
      Inr (JObject [(''name'', JString ''k''), (''creationDate'', JDate 1700000000000),
                    (''modificationDate'', JDate 1700000005000),
                    (''value'', JBuffer [1, 2, 3]),
                    (''meta'', JObject [(''a'', JString ''b'')])],
           [(''k'', utf8_encode
              ''{"name":"k","creationDate":"2023-11-14T22:13:20.000Z","modificationDate":"2023-11-14T22:13:25.000Z","meta":{"a":"b"},"value":"AQID"}'')])\<close>
proof -
  let ?P = reference_storage_platform
  let ?d = \<open>utf8_encode
         ''{"name":"k","creationDate":"2023-11-14T22:13:20.000Z","modificationDate":"2023-11-14T22:13:20.000Z","value":"AQID"}''\<close>
  let ?entry = "[(''name'', JString ''k''), (''creationDate'', JDate 1700000000000),
                 (''modificationDate'', JDate 1700000000000), (''value'', JBuffer [1, 2, 3])]"
  let ?merged = "[(''name'', JString ''k''), (''creationDate'', JDate 1700000000000),
                    (''modificationDate'', JDate 1700000005000),
                    (''value'', JBuffer [1, 2, 3]),
                    (''meta'', JObject [(''a'', JString ''b'')])]"
  let ?s = \<open>utf8_encode
              ''{"name":"k","creationDate":"2023-11-14T22:13:20.000Z","modificationDate":"2023-11-14T22:13:25.000Z","meta":{"a":"b"},"value":"AQID"}''\<close>
  have t: "\<not> truthy_data None" by (simp add: truthy_data_def)
  have 1: "\<exists>message. update ?P memory_adapter stored_example ''k''
        None None 1700000005000 = Inl (TypeError message)"
    using update_contract [where val = None and meta = None and P = ?P and ad = memory_adapter
             and st = stored_example and name = "''k''" and now = 1700000005000] t
    by blast
  have m: "adapter_load memory_adapter stored_example ''missing'' = Inr None"
    by (simp add: memory_adapter_def stored_example_def)
  have 2: "update ?P memory_adapter stored_example ''missing''
        None (Some [(''a'', ''b'')]) 1700000005000 = Inl (KeyEntryDoesNotExistError ''missing'')"
    using update_contract [where val = None and meta = "Some [(''a'', ''b'')]" and P = ?P
             and ad = memory_adapter and st = stored_example and name = "''missing''"
             and now = 1700000005000] m
    by simp
  have l: "adapter_load memory_adapter stored_example ''k'' = Inr (Some ?d)"
    by (simp add: memory_adapter_def stored_example_def)
  have d: "deserializeKeyEntry ?P ?d = Inr (JObject ?entry)"
    by code_simp
  have g: "Object_assign ?entry
             [(''value'', if truthy_data None then JBuffer [] else lookup ?entry ''value''),
              (''meta'', if Some [(''a'', ''b'')] \<noteq> None then meta_value (Some [(''a'', ''b'')])
                          else lookup ?entry ''meta''),
              (''modificationDate'', JDate 1700000005000)] = ?merged"
    by (simp add: t lookup_def meta_value_def)
  have s: "serializeKeyEntry ?P (JObject ?merged) = Some ?s"
    by code_simp
  have u: "adapter_update memory_adapter stored_example ''k'' ?s = Inr [(''k'', ?s)]"
    by (simp add: memory_adapter_def stored_example_def)
  have 3: "update ?P memory_adapter stored_example ''k''
        None (Some [(''a'', ''b'')]) 1700000005000 = Inr (JObject ?merged, [(''k'', ?s)])"
    using update_contract [where val = None and meta = "Some [(''a'', ''b'')]" and P = ?P
             and ad = memory_adapter and st = stored_example and name = "''k''"
             and now = 1700000005000 and d = ?d and entry = ?entry and b = "[]"] l d s u
    unfolding Let_def g by (simp add: t)
  from 1 2 3 show ?thesis by blast
qed

subsection \<open>The memory adapter\<close>

text \<open>
  The memory adapter meets what the results above ask of the adapter: a record stored
  under a new name is loaded back as it was stored, and the name is then taken.
\<close>

lemma memory_store_load:
  assumes "name \<notin> fst ` set st"
  shows "adapter_store memory_adapter st name d = Inr (st @ [(name, d)])"
    and "adapter_load memory_adapter (st @ [(name, d)]) name = Inr (Some d)"
proof -
  show "adapter_store memory_adapter st name d = Inr (st @ [(name, d)])"
    using assms by (simp add: memory_adapter_def)
  have "map_of st name = None"
    using assms by (simp add: map_of_eq_None_iff)
  then show "adapter_load memory_adapter (st @ [(name, d)]) name = Inr (Some d)"
    by (simp add: memory_adapter_def map_add_def)
qed

lemma memory_store_twice:
  "name \<in> fst ` set st \<Longrightarrow>
   save reference_storage_platform memory_adapter st name (DataBytes b) meta now1 now2
     = Inl (KeyEntryAlreadyExistsError name) \<or> name = []"
  by (cases "name = []") (simp_all add: save_bytes memory_adapter_def)

end
